theory Spec2Isabelle
  imports Main
begin

section \<open>Python values used by the histogram splitter\<close>

text \<open>
  The module \<^verbatim>\<open>popmon/hist/hist_splitter.py\<close> defines the class \<^verbatim>\<open>HistSplitter\<close>.
  Its \<^verbatim>\<open>transform\<close> reads a dictionary of histograms from a datastore, splits every
  histogram of two or more dimensions along its first axis, and stores one
  table per group of remaining axes.

  Exceptions are values of the type \<open>error\<close>; a function that may raise returns
  \<open>error + 'a\<close> with \<open>Inl\<close> for the exception.
\<close>

datatype error =
  RuntimeError | ValueError | TypeError | KeyError | AttributeError | IndexError

text \<open>
  Dictionary keys: feature names and group names are strings; the bin values of a
  split are strings (categories, long descriptive keys), numbers or timestamps
  (nanoseconds since 1970).
\<close>

datatype key = KStr string | KInt int | KTimestamp int

text \<open>
  The histogram type \<open>'h\<close> is opaque. A cell of a record or of a table holds a bin
  value or a \<^verbatim>\<open>HistogramContainer\<close> around a sub-histogram; \<open>NaN\<close> is what pandas
  puts where a record lacks a column.
\<close>

datatype 'h cell = Bin key | Container 'h | NaN

type_synonym 'h row = "(string \<times> 'h cell) list"

text \<open>
  A pandas table: the names of its columns, the name of its index, and its rows
  in order, each row being its index label and its cells, one per column.
\<close>

record 'h frame =
  frame_columns :: "string list"
  frame_index_name :: "string option"
  frame_rows :: "('h cell \<times> 'h cell list) list"

text \<open>
  The objects found as values of the dictionaries of the pass: a histogram, a list
  of record dictionaries, a table. A datastore entry is a dictionary of such
  objects or any other object.
\<close>

datatype 'h obj = Hist 'h | Records "'h row list" | DataFrame "'h frame"

type_synonym 'h dict = "(key \<times> 'h obj) list"

datatype 'h stored = Dict "'h dict" | Other_object

type_synonym 'h datastore = "string \<rightharpoonup> 'h stored"

subsection \<open>Dictionaries in insertion order\<close>

text \<open>
  A Python dictionary keeps its keys in insertion order: an assignment to a key
  already present replaces the value in place, an assignment to a new key appends.
\<close>

fun dict_set :: "'k \<Rightarrow> 'v \<Rightarrow> ('k \<times> 'v) list \<Rightarrow> ('k \<times> 'v) list" where
  "dict_set k v [] = [(k, v)]"
| "dict_set k v (p # ps) = (if fst p = k then (k, v) # ps else p # dict_set k v ps)"

definition dict_keys :: "('k \<times> 'v) list \<Rightarrow> 'k list" where
  "dict_keys d = map fst d"

definition dict_remove :: "'k \<Rightarrow> ('k \<times> 'v) list \<Rightarrow> ('k \<times> 'v) list" where
  "dict_remove k d = filter (\<lambda>p. fst p \<noteq> k) d"

text \<open>\<^verbatim>\<open>d.update(other)\<close>: assign every item of \<open>other\<close>, in its order.\<close>

fun dict_update :: "('k \<times> 'v) list \<Rightarrow> ('k \<times> 'v) list \<Rightarrow> ('k \<times> 'v) list" where
  "dict_update d [] = d"
| "dict_update d (p # ps) = dict_update (dict_set (fst p) (snd p) d) ps"

subsection \<open>Strings\<close>

text \<open>\<^verbatim>\<open>s.split(sep)\<close> for a one-character separator, and \<^verbatim>\<open>sep.join(parts)\<close>.\<close>

fun str_split :: "char \<Rightarrow> string \<Rightarrow> string list" where
  "str_split sep [] = [[]]"
| "str_split sep (c # cs) =
     (if c = sep then [] # str_split sep cs
      else (case str_split sep cs of
              [] \<Rightarrow> [[c]]
            | w # ws \<Rightarrow> (c # w) # ws))"

fun str_join :: "string \<Rightarrow> string list \<Rightarrow> string" where
  "str_join sep [] = []"
| "str_join sep [w] = w"
| "str_join sep (w # v # ws) = w @ sep @ str_join sep (v # ws)"

subsection \<open>Tables\<close>

text \<open>
  \<^verbatim>\<open>pd.DataFrame(records)\<close> on a list of dictionaries: the columns are the keys of
  the records in order of first appearance, the index is \<open>0, 1, ...\<close>, and a record
  without some column gets \<open>NaN\<close> there.
\<close>

fun first_seen :: "'a list \<Rightarrow> 'a list \<Rightarrow> 'a list" where
  "first_seen seen [] = []"
| "first_seen seen (x # xs) =
     (if x \<in> set seen then first_seen seen xs else x # first_seen (x # seen) xs)"

definition cell_at :: "'h row \<Rightarrow> string \<Rightarrow> 'h cell" where
  "cell_at r c = (case map_of r c of None \<Rightarrow> NaN | Some v \<Rightarrow> v)"

definition frame_of_records :: "'h row list \<Rightarrow> 'h frame" where
  "frame_of_records rs =
     (let cols = first_seen [] (concat (map (map fst) rs))
      in \<lparr> frame_columns = cols,
           frame_index_name = None,
           frame_rows = map (\<lambda>(i, r). (Bin (KInt (int i)), map (cell_at r) cols))
                            (zip [0 ..< length rs] rs) \<rparr>)"

text \<open>
  \<^verbatim>\<open>pd.DataFrame(x)\<close> for the objects a pass can hold: a list of records gives the
  table above, a table gives a copy of itself, and an object that is neither a
  mapping nor list-like, such as a histogram, is refused by pandas with a
  \<^verbatim>\<open>ValueError\<close>.
\<close>

fun pd_DataFrame :: "'h obj \<Rightarrow> error + 'h frame" where
  "pd_DataFrame (Records rs) = Inr (frame_of_records rs)"
| "pd_DataFrame (DataFrame t) = Inr t"
| "pd_DataFrame (Hist h) = Inl ValueError"

text \<open>
  \<^verbatim>\<open>df.set_index(name)\<close>: the column \<open>name\<close> becomes the index and leaves the
  columns; a table without that column raises \<^verbatim>\<open>KeyError\<close>.
\<close>

definition set_index :: "'h frame \<Rightarrow> string \<Rightarrow> error + 'h frame" where
  "set_index t name =
     (if name \<notin> set (frame_columns t) then Inl KeyError
      else Inr \<lparr> frame_columns = filter (\<lambda>c. c \<noteq> name) (frame_columns t),
                 frame_index_name = Some name,
                 frame_rows =
                   map (\<lambda>(i, cells).
                          (cell_at (zip (frame_columns t) cells) name,
                           map snd (filter (\<lambda>p. fst p \<noteq> name) (zip (frame_columns t) cells))))
                       (frame_rows t) \<rparr>)"

section \<open>The splitter\<close>

subsection \<open>Construction\<close>

record HistSplitter =
  read_key :: string
  store_key :: string
  features :: "string list"
  ignore_features :: "string list"
  feature_begins_with :: string
  project_on_axes :: bool
  flatten_output :: bool
  short_keys :: bool
  var_timestamp :: "string list"
  index_col :: string
  hist_col :: string
  filter_empty_split_hists :: bool

text \<open>\<^verbatim>\<open>xs or []\<close>: \<^verbatim>\<open>None\<close> and the empty list both give the empty list.\<close>

fun or_empty :: "'a list option \<Rightarrow> 'a list" where
  "or_empty None = []"
| "or_empty (Some xs) = xs"

text \<open>
  \<^verbatim>\<open>HistSplitter.__init__\<close>: the arguments in the order of the signature; the three
  list arguments may be \<^verbatim>\<open>None\<close>. The fields are stored first, then the two flags
  are checked.
\<close>

definition init ::
  "string \<Rightarrow> string \<Rightarrow> string list option \<Rightarrow> string list option \<Rightarrow> string \<Rightarrow> bool \<Rightarrow>
   bool \<Rightarrow> bool \<Rightarrow> string list option \<Rightarrow> string \<Rightarrow> string \<Rightarrow> bool \<Rightarrow> error + HistSplitter" where
  "init rk sk fs igf fbw poa flat short vts icol hcol fe =
     (let self = \<lparr> read_key = rk, store_key = sk, features = or_empty fs,
                    ignore_features = or_empty igf, feature_begins_with = fbw,
                    project_on_axes = poa, flatten_output = flat, short_keys = short,
                    var_timestamp = or_empty vts, index_col = icol, hist_col = hcol,
                    filter_empty_split_hists = fe \<rparr>
      in if flatten_output self \<and> short_keys self then Inl RuntimeError else Inr self)"

subsection \<open>Collaborators\<close>

text \<open>
  The base class \<^verbatim>\<open>Module\<close> and the class \<^verbatim>\<open>HistogramContainer\<close> live in
  \<^verbatim>\<open>popmon/base.py\<close> and \<^verbatim>\<open>popmon/hist/histogram.py\<close>, which are not among the
  sources. What \<^verbatim>\<open>transform\<close> calls of them is a parameter of the model:
  the feature-resolution routine \<^verbatim>\<open>get_features\<close>, and of a container its
  dimensionality \<^verbatim>\<open>n_dim\<close>, the flag \<^verbatim>\<open>is_ts\<close> of a temporal first axis, and the
  projection \<^verbatim>\<open>split_hist_along_first_dimension\<close>, whose arguments are, in the
  order of the call, \<^verbatim>\<open>short_keys\<close>, \<^verbatim>\<open>convert_time_index\<close>, \<^verbatim>\<open>xname\<close>, \<^verbatim>\<open>yname\<close> and
  \<^verbatim>\<open>filter_empty_split_hists\<close>. The projection returns the sub-histograms by
  bin value in the bin order of the first axis, or raises.
\<close>

record 'h collaborators =
  get_features :: "HistSplitter \<Rightarrow> key list \<Rightarrow> key list"
  n_dim :: "'h \<Rightarrow> int"
  is_ts :: "'h \<Rightarrow> bool"
  split_hist_along_first_dimension ::
    "'h \<Rightarrow> bool \<Rightarrow> bool \<Rightarrow> string \<Rightarrow> string \<Rightarrow> bool \<Rightarrow> error + (key \<times> 'h) list"

text \<open>
  Modelled from the spec: \<^verbatim>\<open>Module.get_datastore_object(datastore, key, dtype=dict)\<close>
  of \<^verbatim>\<open>popmon/base.py\<close>, which is missing. The stage reads the named input of the
  datastore, which has to be a mapping; a missing key and an object that is not
  a dictionary raise.
\<close>

definition get_datastore_object :: "'h datastore \<Rightarrow> string \<Rightarrow> error + 'h dict" where
  "get_datastore_object datastore k =
     (case datastore k of
        None \<Rightarrow> Inl ValueError
      | Some (Dict d) \<Rightarrow> Inr d
      | Some Other_object \<Rightarrow> Inl TypeError)"

text \<open>
  Modelled from the spec: the constructor \<^verbatim>\<open>HistogramContainer(obj)\<close> of
  \<^verbatim>\<open>popmon/hist/histogram.py\<close>, which is missing. A container wraps one histogram
  and answers the three queries above; an object that is not a histogram has none
  of them, which Python reports as \<^verbatim>\<open>AttributeError\<close>.
\<close>

fun HistogramContainer :: "'h obj \<Rightarrow> error + 'h" where
  "HistogramContainer (Hist h) = Inr h"
| "HistogramContainer (Records rs) = Inl AttributeError"
| "HistogramContainer (DataFrame t) = Inl AttributeError"

subsection \<open>Logging\<close>

text \<open>
  The calls of \<^verbatim>\<open>self.logger\<close> are kept as a list of entries, oldest first: the level
  and the message, a message being its template with the values it formats.
\<close>

datatype level = DEBUG | INFO | WARNING | ERROR

datatype message =
    Splitting_histograms string string
  | Now_splitting key
  | Nothing_to_split key
  | Not_consistent key int nat
  | Already_divided string
  | Split_is_empty string

type_synonym log = "(level \<times> message) list"

subsection \<open>The pass\<close>

text \<open>
  \<^verbatim>\<open>update_divided\<close>: in flattened mode the split is merged into the accumulator
  key by key; otherwise the group \<open>yname\<close> receives the list of the records
  \<^verbatim>\<open>{index_col: k, hist_col: HistogramContainer(h)}\<close>, one for each item of the
  split in its order.
\<close>

definition record_of :: "HistSplitter \<Rightarrow> key \<Rightarrow> 'h \<Rightarrow> 'h row" where
  "record_of self k h = dict_set (hist_col self) (Container h) [(index_col self, Bin k)]"

definition update_divided ::
  "HistSplitter \<Rightarrow> 'h dict \<Rightarrow> (key \<times> 'h) list \<Rightarrow> string \<Rightarrow> 'h dict" where
  "update_divided self divided split yname =
     (if flatten_output self
      then dict_update divided (map (\<lambda>(k, h). (k, Hist h)) split)
      else dict_set (KStr yname) (Records (map (\<lambda>(k, h). record_of self k h) split)) divided)"

text \<open>
  The body of the loop over the features (lines 92 to 129), on the accumulator
  \<open>divided\<close> and the log. Every \<^verbatim>\<open>continue\<close> returns the accumulator as it is.
  \<^verbatim>\<open>data[feature]\<close> raises \<^verbatim>\<open>KeyError\<close> on a missing key, \<^verbatim>\<open>feature.split\<close> exists
  only for a string, and \<^verbatim>\<open>cols[0]\<close> raises \<^verbatim>\<open>IndexError\<close> on an empty list.
\<close>

definition transform_step ::
  "HistSplitter \<Rightarrow> 'h collaborators \<Rightarrow> 'h dict \<Rightarrow> key \<Rightarrow> 'h dict \<times> log
   \<Rightarrow> error + ('h dict \<times> log)" where
  "transform_step self env data feature st =
     (case st of (divided, lg0) \<Rightarrow>
      let lg = lg0 @ [(DEBUG, Now_splitting feature)] in
      (case map_of data feature of
        None \<Rightarrow> Inl KeyError
      | Some ob \<Rightarrow>
          (case HistogramContainer ob of
             Inl e \<Rightarrow> Inl e
           | Inr hc \<Rightarrow>
               if n_dim env hc \<le> 1
               then Inr (divided, lg @ [(DEBUG, Nothing_to_split feature)])
               else
                 (case feature of
                    KStr name \<Rightarrow>
                      (let cols = str_split CHR '':'' name in
                      if int (length cols) \<noteq> n_dim env hc
                      then Inr (divided,
                                lg @ [(ERROR, Not_consistent feature (n_dim env hc) (length cols))])
                      else
                        (case cols of
                           [] \<Rightarrow> Inl IndexError
                         | xname # rest \<Rightarrow>
                             let yname = str_join '':'' rest in
                             if KStr yname \<in> set (dict_keys divided)
                             then Inr (divided, lg @ [(DEBUG, Already_divided yname)])
                             else
                               let ts = (is_ts env hc \<or> xname \<in> set (var_timestamp self)) in
                               (case split_hist_along_first_dimension env hc
                                       (short_keys self) ts xname yname
                                       (filter_empty_split_hists self) of
                                  Inl e \<Rightarrow> Inl e
                                | Inr split \<Rightarrow>
                                    if split = []
                                    then Inr (divided, lg @ [(WARNING, Split_is_empty yname)])
                                    else Inr (update_divided self divided split yname, lg))))
                  | KInt i \<Rightarrow> Inl AttributeError
                  | KTimestamp t \<Rightarrow> Inl AttributeError))))"

text \<open>The loop \<^verbatim>\<open>for feature in features[:]\<close>; an exception ends the pass.\<close>

fun transform_loop ::
  "HistSplitter \<Rightarrow> 'h collaborators \<Rightarrow> 'h dict \<Rightarrow> key list \<Rightarrow> 'h dict \<times> log
   \<Rightarrow> error + ('h dict \<times> log)" where
  "transform_loop self env data [] st = Inr st"
| "transform_loop self env data (feature # fs) st =
     (case transform_step self env data feature st of
        Inl e \<Rightarrow> Inl e
      | Inr st' \<Rightarrow> transform_loop self env data fs st')"

text \<open>The expression \<^verbatim>\<open>pd.DataFrame(v).set_index(self.index_col)\<close> of line 134.\<close>

definition table_of :: "HistSplitter \<Rightarrow> 'h obj \<Rightarrow> error + 'h obj" where
  "table_of self v =
     (case pd_DataFrame v of
        Inl e \<Rightarrow> Inl e
      | Inr t \<Rightarrow>
          (case set_index t (index_col self) of
             Inl e \<Rightarrow> Inl e
           | Inr t' \<Rightarrow> Inr (DataFrame t')))"

text \<open>
  The loop over \<^verbatim>\<open>keys = list(divided.keys())\<close> (lines 132 to 134): each value is
  popped (\<^verbatim>\<open>KeyError\<close> if the key is gone), turned into a table indexed by
  \<open>index_col\<close>, and assigned again under its key, which puts the key last.
\<close>

fun to_dataframes :: "HistSplitter \<Rightarrow> key list \<Rightarrow> 'h dict \<Rightarrow> error + 'h dict" where
  "to_dataframes self [] divided = Inr divided"
| "to_dataframes self (k # ks) divided =
     (case map_of divided k of
        None \<Rightarrow> Inl KeyError
      | Some v \<Rightarrow>
          (case table_of self v of
             Inl e \<Rightarrow> Inl e
           | Inr t \<Rightarrow> to_dataframes self ks (dict_set k t (dict_remove k divided))))"

text \<open>
  \<^verbatim>\<open>transform\<close>: the result is the datastore with the entry \<open>store_key\<close> written,
  together with the log of the call; an exception leaves the datastore as it was.
\<close>

definition transform ::
  "HistSplitter \<Rightarrow> 'h collaborators \<Rightarrow> 'h datastore \<Rightarrow> error + ('h datastore \<times> log)" where
  "transform self env datastore =
     (let lg = [(INFO, Splitting_histograms (read_key self) (store_key self))] in
      (case get_datastore_object datastore (read_key self) of
        Inl e \<Rightarrow> Inl e
      | Inr data \<Rightarrow>
          (let fts = get_features env self (dict_keys data) in
          (case transform_loop self env data fts ([], lg) of
             Inl e \<Rightarrow> Inl e
           | Inr (divided, lg') \<Rightarrow>
               (case to_dataframes self (dict_keys divided) divided of
                  Inl e \<Rightarrow> Inl e
                | Inr tables \<Rightarrow> Inr (datastore(store_key self \<mapsto> Dict tables), lg'))))))"

section \<open>Notions used to state the properties\<close>

text \<open>
  The guards of the loop body, read as a function of the feature alone: the group
  name and the split that a feature contributes when its group is still free.
  A feature that raises or that is skipped by one of the guards on its histogram,
  its name or its split contributes nothing.
\<close>

definition split_of_feature ::
  "HistSplitter \<Rightarrow> 'h collaborators \<Rightarrow> 'h dict \<Rightarrow> key \<Rightarrow> (string \<times> (key \<times> 'h) list) option" where
  "split_of_feature self env data feature =
     (case (feature, map_of data feature) of
        (KStr name, Some (Hist h)) \<Rightarrow>
          (case str_split CHR '':'' name of
             [] \<Rightarrow> None
           | xname # rest \<Rightarrow>
               if n_dim env h \<le> 1 \<or> int (length (xname # rest)) \<noteq> n_dim env h then None
               else
                 (case split_hist_along_first_dimension env h (short_keys self)
                         (is_ts env h \<or> xname \<in> set (var_timestamp self)) xname
                         (str_join '':'' rest) (filter_empty_split_hists self) of
                    Inl e \<Rightarrow> None
                  | Inr split \<Rightarrow> if split = [] then None else Some (str_join '':'' rest, split)))
      | _ \<Rightarrow> None)"

text \<open>The accumulator alone, or the exception, of a state of the loop.\<close>

definition divided_of :: "error + ('h dict \<times> log) \<Rightarrow> error + 'h dict" where
  "divided_of r = (case r of Inl e \<Rightarrow> Inl e | Inr st \<Rightarrow> Inr (fst st))"

text \<open>The entry of the datastore under a key after a call, or the exception.\<close>

definition entry_after :: "error + ('h datastore \<times> log) \<Rightarrow> string \<Rightarrow> error + 'h stored option" where
  "entry_after r k = (case r of Inl e \<Rightarrow> Inl e | Inr st \<Rightarrow> Inr (fst st k))"

section \<open>Example histograms\<close>

text \<open>
  A small histogram type for concrete runs: its dimensionality, whether its first
  axis is temporal, and its sub-histograms by bin of the first axis, already in bin
  order. Its projection returns these bins; its feature resolution returns every
  key of the input when no feature is requested, and otherwise the requested
  features that the input has.
\<close>

datatype example_hist = Example_hist (dims: int) (temporal: bool) (bins: "(key \<times> example_hist) list")

definition example_collaborators :: "example_hist collaborators" where
  "example_collaborators =
     \<lparr> get_features =
         (\<lambda>self ks. if features self = [] then ks
                     else filter (\<lambda>k. k \<in> set ks) (map KStr (features self))),
       n_dim = dims,
       is_ts = temporal,
       split_hist_along_first_dimension = (\<lambda>h sk ct xname yname fe. Inr (bins h)) \<rparr>"

definition leaf :: example_hist where
  "leaf = Example_hist 1 False []"

definition splitter :: HistSplitter where
  "splitter =
     \<lparr> read_key = ''hists'', store_key = ''split_hists'', features = [],
       ignore_features = [], feature_begins_with = [], project_on_axes = True,
       flatten_output = False, short_keys = True, var_timestamp = [],
       index_col = ''date'', hist_col = ''histogram'', filter_empty_split_hists = True \<rparr>"

text \<open>
  The scenario of a three-dimensional histogram \<^verbatim>\<open>cat:x:y\<close> whose projection keeps the
  single bin \<open>0\<close>, and a splitter built with \<^verbatim>\<open>flatten_output=True, short_keys=False\<close>.
\<close>

definition hist_xy :: example_hist where
  "hist_xy = Example_hist 2 False [(KInt 0, leaf)]"

definition hist_cat_x_y :: example_hist where
  "hist_cat_x_y = Example_hist 3 False [(KInt 0, hist_xy)]"

definition store_cat :: "example_hist datastore" where
  "store_cat = [''hists'' \<mapsto> Dict [(KStr ''cat:x:y'', Hist hist_cat_x_y)]]"

definition flat_splitter :: HistSplitter where
  "flat_splitter = splitter\<lparr> flatten_output := True, short_keys := False \<rparr>"

text \<open>
  The scenario of two histograms \<^verbatim>\<open>time:x\<close> and \<^verbatim>\<open>time:y\<close> with three time bins
  each, next to a one-dimensional histogram \<^verbatim>\<open>z\<close>; the table of the three bins; and
  the log of a pass over the three features.
\<close>

definition hist_time :: example_hist where
  "hist_time = Example_hist 2 True [(KTimestamp 1, leaf), (KTimestamp 2, leaf), (KTimestamp 3, leaf)]"

definition data_time :: "example_hist dict" where
  "data_time = [(KStr ''time:x'', Hist hist_time), (KStr ''time:y'', Hist hist_time), (KStr ''z'', Hist leaf)]"

definition store_time :: "example_hist datastore" where
  "store_time = [''hists'' \<mapsto> Dict data_time]"

definition table_time :: "example_hist frame" where
  "table_time =
     \<lparr> frame_columns = [''histogram''], frame_index_name = Some ''date'',
       frame_rows = [(Bin (KTimestamp 1), [Container leaf]), (Bin (KTimestamp 2), [Container leaf]),
                     (Bin (KTimestamp 3), [Container leaf])] \<rparr>"

definition log_time :: log where
  "log_time =
     [(INFO, Splitting_histograms ''hists'' ''split_hists''),
      (DEBUG, Now_splitting (KStr ''time:x'')), (DEBUG, Now_splitting (KStr ''time:y'')),
      (DEBUG, Now_splitting (KStr ''z'')), (DEBUG, Nothing_to_split (KStr ''z''))]"

text \<open>
  Two-dimensional histograms over \<^verbatim>\<open>x\<close> with different first axes: one whose split is
  empty and two with one bin each; and two inputs in which two features reduce to
  the group \<^verbatim>\<open>x\<close>.
\<close>

definition hist_empty :: example_hist where
  "hist_empty = Example_hist 2 False []"

definition hist_b :: example_hist where
  "hist_b = Example_hist 2 False [(KInt 7, leaf)]"

definition hist_c :: example_hist where
  "hist_c = Example_hist 2 False [(KInt 9, leaf)]"

definition data_empty_first :: "example_hist dict" where
  "data_empty_first = [(KStr ''a:x'', Hist hist_empty), (KStr ''b:x'', Hist hist_b)]"

definition data_same_group :: "example_hist dict" where
  "data_same_group = [(KStr ''b:x'', Hist hist_b), (KStr ''c:x'', Hist hist_c)]"

definition table_b :: "example_hist frame" where
  "table_b = \<lparr> frame_columns = [''histogram''], frame_index_name = Some ''date'',
               frame_rows = [(Bin (KInt 7), [Container leaf])] \<rparr>"

text \<open>
  An input whose first feature names three axes for a two-dimensional histogram,
  and an input whose only feature names two axes for a one-dimensional one.
\<close>

definition data_inconsistent :: "example_hist dict" where
  "data_inconsistent = [(KStr ''time:x:y'', Hist hist_time), (KStr ''time:x'', Hist hist_time)]"

definition data_flat_name :: "example_hist dict" where
  "data_flat_name = [(KStr ''a:b'', Hist leaf)]"

text \<open>
  Collaborators whose projection raises unless it is called with the arguments
  \<^verbatim>\<open>short_keys=True, convert_time_index=True, xname='time', yname='x',
  filter_empty_split_hists=True\<close>.
\<close>

definition strict_collaborators :: "example_hist collaborators" where
  "strict_collaborators =
     example_collaborators\<lparr> split_hist_along_first_dimension :=
       (\<lambda>h sk ct xname yname fe.
          if sk \<and> ct \<and> xname = ''time'' \<and> yname = ''x'' \<and> fe then Inr (bins h)
          else Inl RuntimeError) \<rparr>"

section \<open>Auxiliary facts\<close>

text \<open>The example splitter is what the constructor returns on the defaults.\<close>

lemma splitter_is_constructed:
  "init ''hists'' ''split_hists'' None None [] True False True None ''date'' ''histogram'' True
     = Inr splitter"
  by (simp add: init_def splitter_def)

subsection \<open>Dictionaries, the loop and the tables\<close>

lemma dict_keys_dict_set: "set (dict_keys (dict_set k v d)) = insert k (set (dict_keys d))"
  by (induction d) (auto simp: dict_keys_def)

lemma map_of_dict_set: "map_of (dict_set k v d) = (map_of d)(k \<mapsto> v)"
  by (induction d) (auto simp: fun_eq_iff)

lemma dict_set_new: "k \<notin> set (dict_keys d) \<Longrightarrow> dict_set k v d = d @ [(k, v)]"
  by (induction d) (auto simp: dict_keys_def)

lemma dict_keys_dict_set_list:
  "dict_keys (dict_set k v d) = (if k \<in> set (dict_keys d) then dict_keys d else dict_keys d @ [k])"
  by (induction d) (auto simp: dict_keys_def)

lemma distinct_dict_set: "distinct (dict_keys d) \<Longrightarrow> distinct (dict_keys (dict_set k v d))"
  by (simp add: dict_keys_dict_set_list)

lemma distinct_dict_update: "distinct (dict_keys d) \<Longrightarrow> distinct (dict_keys (dict_update d kvs))"
  by (induction kvs arbitrary: d) (auto simp: distinct_dict_set)

lemma dict_remove_absent: "k \<notin> set (dict_keys d) \<Longrightarrow> dict_remove k d = d"
  by (induction d) (auto simp: dict_keys_def dict_remove_def)

lemma transform_loop_append:
  "transform_loop self env data (xs @ ys) st =
     (case transform_loop self env data xs st of Inl e \<Rightarrow> Inl e
      | Inr st' \<Rightarrow> transform_loop self env data ys st')"
  by (induction xs arbitrary: st) (auto split: sum.splits)

lemma step_log_indep:
  "divided_of (transform_step self env data f (d, lg)) = divided_of (transform_step self env data f (d, lg'))"
  by (auto simp: transform_step_def divided_of_def Let_def split: option.splits sum.splits key.splits list.splits)

lemma loop_log_indep:
  "divided_of (transform_loop self env data fs (d, lg)) = divided_of (transform_loop self env data fs (d, lg'))"
proof (induction fs arbitrary: d lg lg')
  case Nil
  then show ?case by (simp add: divided_of_def)
next
  case (Cons f fs)
  have s: "divided_of (transform_step self env data f (d, lg)) = divided_of (transform_step self env data f (d, lg'))"
    by (rule step_log_indep)
  show ?case
  proof (cases "transform_step self env data f (d, lg)")
    case (Inl e)
    with s have "transform_step self env data f (d, lg') = Inl e"
      by (auto simp: divided_of_def split: sum.splits)
    with Inl show ?thesis by (simp add: divided_of_def)
  next
    case (Inr st1)
    with s obtain l2 where "transform_step self env data f (d, lg') = Inr (fst st1, l2)"
      by (cases "transform_step self env data f (d, lg')") (auto simp: divided_of_def)
    with Inr Cons.IH[of "fst st1" "snd st1" l2] show ?thesis by simp
  qed
qed

lemma skip_isolated:
  assumes "\<And>d lg. \<exists>lg1. transform_step self env data f (d, lg) = Inr (d, lg1)"
  shows "divided_of (transform_loop self env data (pre @ f # post) st)
       = divided_of (transform_loop self env data (pre @ post) st)"
proof (cases "transform_loop self env data pre st")
  case (Inl e)
  then show ?thesis by (simp add: transform_loop_append)
next
  case (Inr st1)
  obtain d l where st1: "st1 = (d, l)" by (cases st1)
  from assms obtain l1 where "transform_step self env data f (d, l) = Inr (d, l1)" by blast
  with Inr st1 show ?thesis
    by (simp add: transform_loop_append loop_log_indep[of self env data post d l1 l])
qed

lemma first_seen_subset: "set xs \<subseteq> set seen \<Longrightarrow> first_seen seen xs = []"
  by (induction xs arbitrary: seen) auto

lemma map_snd_index_zip: "map (\<lambda>(i, r). g r) (zip [0 ..< length rs] rs) = map g rs"
proof -
  have "map (\<lambda>(i, r). g r) (zip [0 ..< length rs] rs) = map (g \<circ> snd) (zip [0 ..< length rs] rs)"
    by (simp add: case_prod_unfold comp_def)
  also have "\<dots> = map g (map snd (zip [0 ..< length rs] rs))"
    by (simp only: map_map)
  also have "map snd (zip [0 ..< length rs] rs) = rs"
    by (simp add: map_snd_zip)
  finally show ?thesis .
qed

lemma record_of_keys:
  "map fst (record_of self k h) =
     (if index_col self = hist_col self then [index_col self] else [index_col self, hist_col self])"
  by (simp add: record_of_def)

lemma columns_of_records:
  assumes "s \<noteq> []"
  shows "first_seen [] (concat (map (map fst) (map (\<lambda>(k, h). record_of self k h) s)))
         = (if index_col self = hist_col self then [index_col self] else [index_col self, hist_col self])"
proof -
  obtain k h s' where s: "s = (k, h) # s'" using assms by (cases s) auto
  have rest: "set (concat (map (map fst) (map (\<lambda>(k, h). record_of self k h) s')))
              \<subseteq> set [hist_col self, index_col self]"
    by (induction s') (auto simp: record_of_def split: if_splits)
  show ?thesis
  proof (cases "index_col self = hist_col self")
    case True
    with rest have "set (concat (map (map fst) (map (\<lambda>(k, h). record_of self k h) s'))) \<subseteq> set [hist_col self]"
      by simp
    then have "first_seen [hist_col self] (concat (map (map fst) (map (\<lambda>(k, h). record_of self k h) s'))) = []"
      by (rule first_seen_subset)
    with True show ?thesis by (simp add: s record_of_keys)
  next
    case False
    from rest have "first_seen [hist_col self, index_col self] (concat (map (map fst) (map (\<lambda>(k, h). record_of self k h) s'))) = []"
      by (rule first_seen_subset)
    with False show ?thesis by (simp add: s record_of_keys)
  qed
qed

lemma table_of_records:
  assumes "s \<noteq> []"
  shows "table_of self (Records (map (\<lambda>(k, h). record_of self k h) s))
         = Inr (DataFrame \<lparr> frame_columns = (if index_col self = hist_col self then [] else [hist_col self]),
                   frame_index_name = Some (index_col self),
                   frame_rows = map (\<lambda>(k, h). if index_col self = hist_col self then (Container h, [])
                                                else (Bin k, [Container h])) s \<rparr>)"
proof -
  define rs where "rs = map (\<lambda>(k, h). record_of self k h) s"
  define c where "c = (if index_col self = hist_col self then [index_col self]
                       else [index_col self, hist_col self])"
  define G :: "'a row \<Rightarrow> 'a cell \<times> 'a cell list" where
    "G = (\<lambda>r. (cell_at (zip c (map (cell_at r) c)) (index_col self),
               map snd (filter (\<lambda>p. fst p \<noteq> index_col self) (zip c (map (cell_at r) c)))))"
  have cols: "first_seen [] (concat (map (map fst) rs)) = c"
    unfolding rs_def c_def by (rule columns_of_records[OF assms])
  have len: "length rs = length s" by (simp add: rs_def)
  have fr: "frame_of_records rs =
            \<lparr> frame_columns = c, frame_index_name = None,
              frame_rows = map (\<lambda>(i, r). (Bin (KInt (int i)), map (cell_at r) c))
                               (zip [0 ..< length rs] rs) \<rparr>"
    by (simp add: frame_of_records_def Let_def cols)
  have inc: "index_col self \<in> set c" by (simp add: c_def)
  have "map (\<lambda>(i, cells). (cell_at (zip c cells) (index_col self),
                            map snd (filter (\<lambda>p. fst p \<noteq> index_col self) (zip c cells))))
            (map (\<lambda>(i, r). (Bin (KInt (int i)), map (cell_at r) c)) (zip [0 ..< length rs] rs))
        = map (\<lambda>(i, r). G r) (zip [0 ..< length rs] rs)"
    by (simp add: G_def case_prod_unfold comp_def)
  also have "\<dots> = map G rs" by (rule map_snd_index_zip)
  also have "\<dots> = map (\<lambda>(k, h). if index_col self = hist_col self then (Container h, [])
                                   else (Bin k, [Container h])) s"
    by (simp add: rs_def G_def c_def cell_at_def record_of_def case_prod_unfold comp_def)
  finally have rows: "map (\<lambda>(i, cells). (cell_at (zip c cells) (index_col self),
                            map snd (filter (\<lambda>p. fst p \<noteq> index_col self) (zip c cells))))
            (map (\<lambda>(i, r). (Bin (KInt (int i)), map (cell_at r) c)) (zip [0 ..< length rs] rs))
        = map (\<lambda>(k, h). if index_col self = hist_col self then (Container h, [])
                                   else (Bin k, [Container h])) s" .
  have flt: "filter (\<lambda>x. x \<noteq> index_col self) c = (if index_col self = hist_col self then [] else [hist_col self])"
    by (auto simp: c_def)
  have "set_index (frame_of_records rs) (index_col self)
        = Inr \<lparr> frame_columns = (if index_col self = hist_col self then [] else [hist_col self]),
                   frame_index_name = Some (index_col self),
                   frame_rows = map (\<lambda>(k, h). if index_col self = hist_col self then (Container h, [])
                                                else (Bin k, [Container h])) s \<rparr>"
    unfolding set_index_def fr using inc by (simp add: rows flt del: map_map)
  then show ?thesis
    by (simp add: table_of_def rs_def)
qed


lemma step_branches:
  "transform_step self env data f (d, lg) =
     (case map_of data f of
        None \<Rightarrow> Inl KeyError
      | Some (Records rs) \<Rightarrow> Inl AttributeError
      | Some (DataFrame t) \<Rightarrow> Inl AttributeError
      | Some (Hist h) \<Rightarrow>
          if n_dim env h \<le> 1
          then Inr (d, lg @ [(DEBUG, Now_splitting f), (DEBUG, Nothing_to_split f)])
          else (case f of
                  KInt i \<Rightarrow> Inl AttributeError
                | KTimestamp t \<Rightarrow> Inl AttributeError
                | KStr name \<Rightarrow>
                    if int (length (str_split CHR '':'' name)) \<noteq> n_dim env h
                    then Inr (d, lg @ [(DEBUG, Now_splitting f),
                           (ERROR, Not_consistent f (n_dim env h) (length (str_split CHR '':'' name)))])
                    else if KStr (str_join '':'' (tl (str_split CHR '':'' name))) \<in> set (dict_keys d)
                    then Inr (d, lg @ [(DEBUG, Now_splitting f),
                           (DEBUG, Already_divided (str_join '':'' (tl (str_split CHR '':'' name))))])
                    else (case split_hist_along_first_dimension env h (short_keys self)
                                 (is_ts env h \<or> hd (str_split CHR '':'' name) \<in> set (var_timestamp self))
                                 (hd (str_split CHR '':'' name))
                                 (str_join '':'' (tl (str_split CHR '':'' name)))
                                 (filter_empty_split_hists self) of
                            Inl e \<Rightarrow> Inl e
                          | Inr s \<Rightarrow>
                              if s = []
                              then Inr (d, lg @ [(DEBUG, Now_splitting f),
                                     (WARNING, Split_is_empty (str_join '':'' (tl (str_split CHR '':'' name))))])
                              else Inr (update_divided self d s (str_join '':'' (tl (str_split CHR '':'' name))),
                                        lg @ [(DEBUG, Now_splitting f)]))))"
proof -
  have ne: "str_split CHR '':'' name \<noteq> []" for name
    by (induction name) (auto split: list.splits)
  show ?thesis
  proof (cases "map_of data f")
    case None
    then show ?thesis by (simp add: transform_step_def)
  next
    case (Some ob)
    show ?thesis
    proof (cases ob)
      case (Hist h)
      show ?thesis
      proof (cases f)
        case (KStr name)
        obtain x r where xr: "str_split CHR '':'' name = x # r"
          using ne[of name] by (cases "str_split CHR '':'' name") auto
        show ?thesis
          using Some by (simp add: transform_step_def Hist KStr xr Let_def split: sum.splits)
      qed (use Some in \<open>simp_all add: transform_step_def Hist\<close>)
    qed (use Some in \<open>simp_all add: transform_step_def\<close>)
  qed
qed

lemma split_of_feature_branches:
  "split_of_feature self env data f =
     (case map_of data f of
        None \<Rightarrow> None
      | Some (Records rs) \<Rightarrow> None
      | Some (DataFrame t) \<Rightarrow> None
      | Some (Hist h) \<Rightarrow>
          if n_dim env h \<le> 1 then None
          else (case f of
                  KInt i \<Rightarrow> None
                | KTimestamp t \<Rightarrow> None
                | KStr name \<Rightarrow>
                    if int (length (str_split CHR '':'' name)) \<noteq> n_dim env h then None
                    else (case split_hist_along_first_dimension env h (short_keys self)
                                 (is_ts env h \<or> hd (str_split CHR '':'' name) \<in> set (var_timestamp self))
                                 (hd (str_split CHR '':'' name))
                                 (str_join '':'' (tl (str_split CHR '':'' name)))
                                 (filter_empty_split_hists self) of
                            Inl e \<Rightarrow> None
                          | Inr s \<Rightarrow>
                              if s = [] then None
                              else Some (str_join '':'' (tl (str_split CHR '':'' name)), s))))"
proof -
  have ne: "str_split CHR '':'' name \<noteq> []" for name
    by (induction name) (auto split: list.splits)
  show ?thesis
  proof (cases "map_of data f")
    case None
    then show ?thesis by (cases f) (simp_all add: split_of_feature_def)
  next
    case (Some ob)
    show ?thesis
    proof (cases ob)
      case (Hist h)
      show ?thesis
      proof (cases f)
        case (KStr name)
        obtain x r where xr: "str_split CHR '':'' name = x # r"
          using ne[of name] by (cases "str_split CHR '':'' name") auto
        show ?thesis
          using Some by (simp add: split_of_feature_def Hist KStr xr Let_def split: sum.splits)
      qed (use Some in \<open>simp_all add: split_of_feature_def Hist\<close>)
    qed (use Some in \<open>cases f; simp add: split_of_feature_def\<close>)+
  qed
qed


lemma step_Inr_cases:
  assumes "transform_step self env data f (d, lg) = Inr (d', lg')"
  shows "d' = d \<or> (\<exists>y s. split_of_feature self env data f = Some (y, s)
                         \<and> KStr y \<notin> set (dict_keys d) \<and> d' = update_divided self d s y)"
  using assms unfolding step_branches split_of_feature_branches
  by (auto split: option.splits obj.splits key.splits if_splits sum.splits)

lemma nested_step_shape:
  assumes "\<not> flatten_output self" and "transform_step self env data f (d, lg) = Inr (d', lg')"
  shows "d' = d \<or> (\<exists>y s. split_of_feature self env data f = Some (y, s)
                         \<and> KStr y \<notin> set (dict_keys d)
                         \<and> d' = d @ [(KStr y, Records (map (\<lambda>(k, h). record_of self k h) s))])"
  using step_Inr_cases[OF assms(2)] assms(1)
  by (auto simp: update_divided_def dict_set_new)

lemma nested_loop_shape:
  assumes "\<not> flatten_output self" and "transform_loop self env data fs (d, lg) = Inr (d', lg')"
  shows "\<exists>new. d' = d @ new
           \<and> (distinct (dict_keys d) \<longrightarrow> distinct (dict_keys d'))
           \<and> (\<forall>(g, v) \<in> set new. \<exists>f \<in> set fs. \<exists>y s. split_of_feature self env data f = Some (y, s)
                  \<and> g = KStr y \<and> v = Records (map (\<lambda>(k, h). record_of self k h) s))"
  using assms(2)
proof (induction fs arbitrary: d lg)
  case Nil
  then show ?case by simp
next
  case (Cons f fs)
  from Cons.prems obtain d1 l1 where
    s1: "transform_step self env data f (d, lg) = Inr (d1, l1)" and
    r1: "transform_loop self env data fs (d1, l1) = Inr (d', lg')"
    by (auto split: sum.splits)
  from Cons.IH[OF r1] obtain new where
    n1: "d' = d1 @ new" and
    n2: "distinct (dict_keys d1) \<longrightarrow> distinct (dict_keys d')" and
    n3: "\<forall>(g, v) \<in> set new. \<exists>f \<in> set fs. \<exists>y s. split_of_feature self env data f = Some (y, s)
                  \<and> g = KStr y \<and> v = Records (map (\<lambda>(k, h). record_of self k h) s)"
    by blast
  from nested_step_shape[OF assms(1) s1] show ?case
  proof
    assume "d1 = d"
    with n1 n2 n3 show ?thesis by (intro exI[of _ new]) fastforce
  next
    assume "\<exists>y s. split_of_feature self env data f = Some (y, s)
                         \<and> KStr y \<notin> set (dict_keys d)
                         \<and> d1 = d @ [(KStr y, Records (map (\<lambda>(k, h). record_of self k h) s))]"
    then obtain y s where ys: "split_of_feature self env data f = Some (y, s)"
      "KStr y \<notin> set (dict_keys d)"
      "d1 = d @ [(KStr y, Records (map (\<lambda>(k, h). record_of self k h) s))]" by blast
    have "distinct (dict_keys d) \<longrightarrow> distinct (dict_keys d1)"
      using ys(2,3) by (simp add: dict_keys_def)
    with n1 n2 n3 ys show ?thesis
      by (intro exI[of _ "(KStr y, Records (map (\<lambda>(k, h). record_of self k h) s)) # new"]) fastforce
  qed
qed

lemma to_dataframes_distinct:
  assumes "distinct (dict_keys (xs @ ys))"
    and "\<forall>(k, v) \<in> set xs. \<exists>t. table_of self v = Inr t"
  shows "to_dataframes self (dict_keys xs) (xs @ ys)
         = Inr (ys @ map (\<lambda>(k, v). (k, projr (table_of self v))) xs)"
  using assms
proof (induction xs arbitrary: ys)
  case Nil
  then show ?case by (simp add: dict_keys_def)
next
  case (Cons p xs)
  obtain k v where p: "p = (k, v)" by (cases p)
  from Cons.prems(2) p obtain t where t: "table_of self v = Inr t" by auto
  from Cons.prems(1) p have nk: "k \<notin> set (dict_keys (xs @ ys))" and d: "distinct (dict_keys (xs @ ys))"
    by (auto simp: dict_keys_def)
  have "dict_remove k (p # xs @ ys) = dict_remove k (xs @ ys)"
    by (simp add: p dict_remove_def)
  then have rem: "dict_remove k (p # xs @ ys) = xs @ ys"
    using dict_remove_absent[OF nk] by simp
  have "dict_set k t (xs @ ys) = xs @ (ys @ [(k, t)])"
    using nk by (simp add: dict_set_new)
  moreover have "distinct (dict_keys (xs @ (ys @ [(k, t)])))"
    using nk d by (auto simp: dict_keys_def)
  moreover have "\<forall>(k, v) \<in> set xs. \<exists>t. table_of self v = Inr t" using Cons.prems(2) by auto
  ultimately have "to_dataframes self (dict_keys xs) (dict_set k t (xs @ ys))
       = Inr ((ys @ [(k, t)]) @ map (\<lambda>(k, v). (k, projr (table_of self v))) xs)"
    using Cons.IH[of "ys @ [(k, t)]"] by simp
  then show ?case
    using t rem by (simp add: p dict_keys_def)
qed

lemma to_dataframes_Hist:
  assumes "d \<noteq> []" and "\<forall>(k, v) \<in> set d. \<exists>h. v = Hist h"
  shows "to_dataframes self (dict_keys d) d = Inl ValueError"
proof -
  obtain k v d' where d: "d = (k, v) # d'" using assms(1) by (cases d) auto
  with assms(2) obtain h where "v = Hist h" by auto
  with d show ?thesis by (simp add: dict_keys_def table_of_def)
qed

subsection \<open>The flattened mode\<close>

text \<open>The merge of a split into the flat accumulator: a later item wins over an earlier one
  and over the accumulator.\<close>

lemma dict_update_last_write_wins:
  "map_of (dict_update d kvs) = map_of d ++ map_of (rev kvs)"
proof (induction kvs arbitrary: d)
  case Nil
  then show ?case by simp
next
  case (Cons p kvs)
  obtain k v where p: "p = (k, v)" by (cases p)
  have "map_of (dict_update d (p # kvs)) = map_of (dict_set k v d) ++ map_of (rev kvs)"
    by (simp add: Cons.IH p)
  also have "map_of (dict_set k v d) = map_of d ++ [k \<mapsto> v]"
    by (simp add: map_of_dict_set)
  also have "(map_of d ++ [k \<mapsto> v]) ++ map_of (rev kvs) = map_of d ++ map_of (rev (p # kvs))"
    by (simp add: p)
  finally show ?case .
qed

lemma set_dict_set: "set (dict_set k v d) \<subseteq> insert (k, v) (set d)"
  by (induction d) auto

lemma set_dict_update: "set (dict_update d kvs) \<subseteq> set d \<union> set kvs"
proof (induction kvs arbitrary: d)
  case Nil
  then show ?case by simp
next
  case (Cons p kvs)
  have "set (dict_update (dict_set (fst p) (snd p) d) kvs) \<subseteq> set (dict_set (fst p) (snd p) d) \<union> set kvs"
    by (rule Cons.IH)
  also have "\<dots> \<subseteq> insert p (set d) \<union> set kvs"
    using set_dict_set[of "fst p" "snd p" d] by auto
  finally show ?case by auto
qed

lemma flatten_step_Hist:
  assumes "flatten_output self" and "transform_step self env data f (d, lg) = Inr (d', lg')"
    and "\<forall>(k, v) \<in> set d. \<exists>h. v = Hist h"
  shows "\<forall>(k, v) \<in> set d'. \<exists>h. v = Hist h"
proof -
  from step_Inr_cases[OF assms(2)] show ?thesis
  proof
    assume "d' = d" with assms(3) show ?thesis by simp
  next
    assume "\<exists>y s. split_of_feature self env data f = Some (y, s)
                         \<and> KStr y \<notin> set (dict_keys d) \<and> d' = update_divided self d s y"
    then obtain y s where "d' = dict_update d (map (\<lambda>(k, h). (k, Hist h)) s)"
      using assms(1) by (auto simp: update_divided_def)
    with set_dict_update[of d "map (\<lambda>(k, h). (k, Hist h)) s"] assms(3)
    show ?thesis by fastforce
  qed
qed

lemma flatten_loop_Hist:
  assumes "flatten_output self" and "transform_loop self env data fs (d, lg) = Inr (d', lg')"
    and "\<forall>(k, v) \<in> set d. \<exists>h. v = Hist h"
  shows "\<forall>(k, v) \<in> set d'. \<exists>h. v = Hist h"
  using assms(2,3)
proof (induction fs arbitrary: d lg)
  case Nil
  then show ?case by simp
next
  case (Cons f fs)
  from Cons.prems(1) obtain d1 l1 where
    s1: "transform_step self env data f (d, lg) = Inr (d1, l1)" and
    r1: "transform_loop self env data fs (d1, l1) = Inr (d', lg')"
    by (auto split: sum.splits)
  from flatten_step_Hist[OF assms(1) s1 Cons.prems(2)] Cons.IH[OF r1] show ?case by blast
qed

lemma transform_Inr_D:
  assumes "transform self env ds = Inr (ds', lg)"
  shows "\<exists>data divided tables.
           get_datastore_object ds (read_key self) = Inr data
         \<and> transform_loop self env data (get_features env self (dict_keys data))
               ([], [(INFO, Splitting_histograms (read_key self) (store_key self))]) = Inr (divided, lg)
         \<and> to_dataframes self (dict_keys divided) divided = Inr tables
         \<and> ds' = ds(store_key self \<mapsto> Dict tables)"
  using assms by (auto simp: transform_def Let_def split: sum.splits prod.splits)

lemma flatten_output_stores_nothing:
  assumes "flatten_output self" and "transform self env ds = Inr (ds', lg)"
  shows "ds' = ds(store_key self \<mapsto> Dict [])"
proof -
  from transform_Inr_D[OF assms(2)] obtain data divided tables where
    l: "transform_loop self env data (get_features env self (dict_keys data))
               ([], [(INFO, Splitting_histograms (read_key self) (store_key self))]) = Inr (divided, lg)"
    and t: "to_dataframes self (dict_keys divided) divided = Inr tables"
    and d: "ds' = ds(store_key self \<mapsto> Dict tables)" by blast
  have h: "\<forall>(k, v) \<in> set divided. \<exists>h. v = Hist h"
    using flatten_loop_Hist[OF assms(1) l] by simp
  have "divided = []"
  proof (rule ccontr)
    assume "divided \<noteq> []"
    from to_dataframes_Hist[OF this h] t show False by simp
  qed
  with t d show ?thesis by (simp add: dict_keys_def)
qed

subsection \<open>The nested mode\<close>

lemma split_of_feature_nonempty:
  "split_of_feature self env data f = Some (y, s) \<Longrightarrow> s \<noteq> []"
  unfolding split_of_feature_branches
  by (auto split: option.splits obj.splits key.splits if_splits sum.splits)

lemma nested_transform_D:
  assumes "\<not> flatten_output self" and "transform self env ds = Inr (ds', lg)"
  shows "\<exists>data divided.
           get_datastore_object ds (read_key self) = Inr data
         \<and> transform_loop self env data (get_features env self (dict_keys data))
               ([], [(INFO, Splitting_histograms (read_key self) (store_key self))]) = Inr (divided, lg)
         \<and> distinct (dict_keys divided)
         \<and> (\<forall>(g, v) \<in> set divided. \<exists>f \<in> set (get_features env self (dict_keys data)). \<exists>y s.
                split_of_feature self env data f = Some (y, s)
              \<and> g = KStr y \<and> v = Records (map (\<lambda>(k, h). record_of self k h) s))
         \<and> ds' = ds(store_key self \<mapsto> Dict (map (\<lambda>(k, v). (k, projr (table_of self v))) divided))"
proof -
  from transform_Inr_D[OF assms(2)] obtain data divided tables where
    g: "get_datastore_object ds (read_key self) = Inr data" and
    l: "transform_loop self env data (get_features env self (dict_keys data))
               ([], [(INFO, Splitting_histograms (read_key self) (store_key self))]) = Inr (divided, lg)"
    and t: "to_dataframes self (dict_keys divided) divided = Inr tables"
    and d: "ds' = ds(store_key self \<mapsto> Dict tables)" by blast
  from nested_loop_shape[OF assms(1) l] have
    dist: "distinct (dict_keys divided)" and
    src: "\<forall>(g, v) \<in> set divided. \<exists>f \<in> set (get_features env self (dict_keys data)). \<exists>y s.
                split_of_feature self env data f = Some (y, s)
              \<and> g = KStr y \<and> v = Records (map (\<lambda>(k, h). record_of self k h) s)"
    by (auto simp: dict_keys_def)
  have ok: "\<forall>(k, v) \<in> set divided. \<exists>t. table_of self v = Inr t"
  proof (clarify)
    fix k v assume "(k, v) \<in> set divided"
    with src obtain f y s where "split_of_feature self env data f = Some (y, s)"
      "v = Records (map (\<lambda>(k, h). record_of self k h) s)" by fastforce
    with table_of_records[OF split_of_feature_nonempty, of self env data f y s]
    show "\<exists>t. table_of self v = Inr t" by simp
  qed
  from to_dataframes_distinct[of divided "[]" self] dist ok
  have "to_dataframes self (dict_keys divided) divided
        = Inr (map (\<lambda>(k, v). (k, projr (table_of self v))) divided)" by simp
  with t d g l dist src show ?thesis by auto
qed

lemma split_of_feature_SomeD:
  assumes "split_of_feature self env data f = Some (y, s)"
  shows "\<exists>name h. f = KStr name \<and> map_of data f = Some (Hist h) \<and> 1 < n_dim env h
           \<and> int (length (str_split CHR '':'' name)) = n_dim env h
           \<and> y = str_join '':'' (tl (str_split CHR '':'' name))
           \<and> split_hist_along_first_dimension env h (short_keys self)
                (is_ts env h \<or> hd (str_split CHR '':'' name) \<in> set (var_timestamp self))
                (hd (str_split CHR '':'' name)) y (filter_empty_split_hists self) = Inr s
           \<and> s \<noteq> []"
  using assms unfolding split_of_feature_branches
  by (auto split: option.splits obj.splits key.splits if_splits sum.splits)

lemma transform_loop_Cons_Inr:
  assumes "transform_loop self env data (f # fs) st = Inr r"
  obtains st1 where "transform_step self env data f st = Inr st1"
    and "transform_loop self env data fs st1 = Inr r"
  using assms by (auto split: sum.splits)


lemma transform_Inr_rows:
  assumes "transform self env ds = Inr (ds', lg)"
  shows "\<exists>tables. ds' (store_key self) = Some (Dict tables)
           \<and> (\<forall>(g, v) \<in> set tables. \<exists>t. v = DataFrame t \<and> frame_rows t \<noteq> [])"
proof (cases "flatten_output self")
  case True
  from flatten_output_stores_nothing[OF True assms] show ?thesis by simp
next
  case False
  from nested_transform_D[OF False assms] obtain data divided where
    src: "\<forall>(g, v) \<in> set divided. \<exists>f \<in> set (get_features env self (dict_keys data)). \<exists>y s.
                split_of_feature self env data f = Some (y, s)
              \<and> g = KStr y \<and> v = Records (map (\<lambda>(k, h). record_of self k h) s)"
    and d: "ds' = ds(store_key self \<mapsto> Dict (map (\<lambda>(k, v). (k, projr (table_of self v))) divided))"
    by blast
  have "\<exists>t. projr (table_of self w) = DataFrame t \<and> frame_rows t \<noteq> []" if "(g, w) \<in> set divided" for g w
  proof -
    from src that obtain f y s where sp: "split_of_feature self env data f = Some (y, s)"
      and w: "w = Records (map (\<lambda>(k, h). record_of self k h) s)" by fastforce
    from split_of_feature_nonempty[OF sp] have "s \<noteq> []" .
    with table_of_records[OF this, of self] w show ?thesis by simp
  qed
  then have "\<forall>(g, v) \<in> set (map (\<lambda>(k, v). (k, projr (table_of self v))) divided).
               \<exists>t. v = DataFrame t \<and> frame_rows t \<noteq> []"
    by auto
  with d show ?thesis by simp
qed

lemma transform_depends_on_input:
  assumes "get_datastore_object other (read_key self) = get_datastore_object ds (read_key self)"
  shows "entry_after (transform self env other) (store_key self)
       = entry_after (transform self env ds) (store_key self)"
  using assms by (simp add: transform_def entry_after_def Let_def split: sum.splits prod.splits)

section \<open>Construction fails exactly on the two flags together\<close>

text \<open>
  Claim C1. Constructing a splitter with \<open>flatten_output\<close> and \<open>short_keys\<close> both
  true raises the configuration error (\<^verbatim>\<open>RuntimeError\<close>) in the constructor itself,
  so no instance exists on which \<^verbatim>\<open>transform\<close> could run; with any other
  combination of the two flags the constructor returns an instance, which carries
  the two flags as given.
\<close>

theorem init_raises_iff_both_flags:
  "(init rk sk fs igf fbw poa flat short vts icol hcol fe = Inl RuntimeError) = (flat \<and> short)
   \<and> (\<exists>self. init rk sk fs igf fbw poa flat short vts icol hcol fe = Inr self
              \<and> flatten_output self = flat \<and> short_keys self = short)
     = (\<not> (flat \<and> short))"
  by (auto simp: init_def Let_def)

section \<open>The flattened mode never stores a flat mapping\<close>

text \<open>
  Claim C2 says that with \<open>flatten_output\<close> the value stored under \<open>store_key\<close> is
  one flat mapping from bin value to sub-histogram. The code merges the splits
  into such a mapping in \<^verbatim>\<open>update_divided\<close>, but the final loop then hands every
  value of the accumulator to \<^verbatim>\<open>pd.DataFrame\<close>, flattened or not. On the scenario of
  the histogram \<^verbatim>\<open>cat:x:y\<close> with the single bin \<open>0\<close> the call raises and stores
  nothing.
\<close>

theorem flatten_output_scenario_raises:
  "init ''hists'' ''split_hists'' None None [] True True False None ''date'' ''histogram'' True
     = Inr flat_splitter
   \<and> transform_loop flat_splitter example_collaborators [(KStr ''cat:x:y'', Hist hist_cat_x_y)]
       [KStr ''cat:x:y''] ([], []) = Inr ([(KInt 0, Hist hist_xy)], [(DEBUG, Now_splitting (KStr ''cat:x:y''))])
   \<and> transform flat_splitter example_collaborators store_cat = Inl ValueError"
  by (simp add: init_def transform_def flat_splitter_def splitter_def store_cat_def hist_cat_x_y_def
      hist_xy_def leaf_def example_collaborators_def get_datastore_object_def dict_keys_def
      transform_step_def update_divided_def table_of_def Let_def)

section \<open>The tables of the nested mode\<close>

text \<open>
  Claim C3. In nested mode (\<open>flatten_output\<close> false), when \<^verbatim>\<open>transform\<close> returns, the
  dictionary stored under \<open>store_key\<close> has exactly the groups of the accumulator,
  in their order. Each group \<open>yname\<close> comes from a feature that passed the guards
  with the split \<open>split\<close>, holds in the accumulator the records
  \<^verbatim>\<open>{index_col: k, hist_col: HistogramContainer(h)}\<close> of the items of the split in
  their order, and is stored as the table built from these records with its index
  set to \<open>index_col\<close>. The rows of the table follow the items of the split one by
  one: the bin value as index label and the container as the only cell (when the
  two column names coincide the record has the single field holding the container,
  which then is the index label).
\<close>

theorem nested_output_tables:
  assumes "\<not> flatten_output self"
    and "get_datastore_object datastore (read_key self) = Inr data"
    and "transform self env datastore = Inr (datastore', lg)"
  shows "\<exists>divided tables.
           transform_loop self env data (get_features env self (dict_keys data))
               ([], [(INFO, Splitting_histograms (read_key self) (store_key self))]) = Inr (divided, lg)
         \<and> datastore' (store_key self) = Some (Dict tables)
         \<and> dict_keys tables = dict_keys divided
         \<and> (\<forall>(g, v) \<in> set tables.
               \<exists>f \<in> set (get_features env self (dict_keys data)). \<exists>yname split t.
                  split_of_feature self env data f = Some (yname, split)
                \<and> g = KStr yname
                \<and> map_of divided g = Some (Records (map (\<lambda>(k, h). record_of self k h) split))
                \<and> v = DataFrame t
                \<and> set_index (frame_of_records (map (\<lambda>(k, h). record_of self k h) split)) (index_col self) = Inr t
                \<and> frame_index_name t = Some (index_col self)
                \<and> frame_rows t = map (\<lambda>(k, h). if index_col self = hist_col self then (Container h, [])
                                                 else (Bin k, [Container h])) split)"
proof -
  from nested_transform_D[OF assms(1,3)] assms(2) obtain divided where
    l: "transform_loop self env data (get_features env self (dict_keys data))
               ([], [(INFO, Splitting_histograms (read_key self) (store_key self))]) = Inr (divided, lg)"
    and dist: "distinct (dict_keys divided)"
    and src: "\<forall>(g, v) \<in> set divided. \<exists>f \<in> set (get_features env self (dict_keys data)). \<exists>y s.
                split_of_feature self env data f = Some (y, s)
              \<and> g = KStr y \<and> v = Records (map (\<lambda>(k, h). record_of self k h) s)"
    and d: "datastore' = datastore(store_key self \<mapsto> Dict (map (\<lambda>(k, v). (k, projr (table_of self v))) divided))"
    by auto
  let ?tables = "map (\<lambda>(k, v). (k, projr (table_of self v))) divided"
  have keys: "dict_keys ?tables = dict_keys divided"
    by (simp add: dict_keys_def case_prod_unfold comp_def)
  have each: "\<exists>f \<in> set (get_features env self (dict_keys data)). \<exists>yname split t.
                  split_of_feature self env data f = Some (yname, split)
                \<and> g = KStr yname
                \<and> map_of divided g = Some (Records (map (\<lambda>(k, h). record_of self k h) split))
                \<and> v = DataFrame t
                \<and> set_index (frame_of_records (map (\<lambda>(k, h). record_of self k h) split)) (index_col self) = Inr t
                \<and> frame_index_name t = Some (index_col self)
                \<and> frame_rows t = map (\<lambda>(k, h). if index_col self = hist_col self then (Container h, [])
                                                 else (Bin k, [Container h])) split"
    if gv: "(g, v) \<in> set ?tables" for g v
  proof -
    from gv obtain w where w: "(g, w) \<in> set divided" and v: "v = projr (table_of self w)" by auto
    from src w obtain f y s where f: "f \<in> set (get_features env self (dict_keys data))"
      and sp: "split_of_feature self env data f = Some (y, s)"
      and g: "g = KStr y" and wr: "w = Records (map (\<lambda>(k, h). record_of self k h) s)" by fastforce
    have ne: "s \<noteq> []" by (rule split_of_feature_nonempty[OF sp])
    define t where "t = \<lparr> frame_columns = (if index_col self = hist_col self then [] else [hist_col self]),
                   frame_index_name = Some (index_col self),
                   frame_rows = map (\<lambda>(k, h). if index_col self = hist_col self then (Container h, [])
                                                else (Bin k, [Container h])) s \<rparr>"
    have tr: "table_of self w = Inr (DataFrame t)"
      unfolding wr t_def by (rule table_of_records[OF ne])
    then have si: "set_index (frame_of_records (map (\<lambda>(k, h). record_of self k h) s)) (index_col self) = Inr t"
      by (auto simp: table_of_def wr split: sum.splits)
    have mo: "map_of divided g = Some w"
      using dist w by (simp add: dict_keys_def)
    show ?thesis
      using f sp g mo wr v tr si by (intro bexI[of _ f] exI[of _ y] exI[of _ s] exI[of _ t]) (simp_all add: t_def)
  qed
  have st: "datastore' (store_key self) = Some (Dict ?tables)"
    by (simp add: d)
  from each have all: "\<forall>(g, v) \<in> set ?tables.
               \<exists>f \<in> set (get_features env self (dict_keys data)). \<exists>yname split t.
                  split_of_feature self env data f = Some (yname, split)
                \<and> g = KStr yname
                \<and> map_of divided g = Some (Records (map (\<lambda>(k, h). record_of self k h) split))
                \<and> v = DataFrame t
                \<and> set_index (frame_of_records (map (\<lambda>(k, h). record_of self k h) split)) (index_col self) = Inr t
                \<and> frame_index_name t = Some (index_col self)
                \<and> frame_rows t = map (\<lambda>(k, h). if index_col self = hist_col self then (Container h, [])
                                                 else (Bin k, [Container h])) split"
    by blast
  from l st keys all show ?thesis by blast
qed

theorem nested_output_tables_witness:
  "\<not> flatten_output splitter
   \<and> get_datastore_object store_time (read_key splitter) = Inr data_time
   \<and> transform splitter example_collaborators store_time
       = Inr (store_time(''split_hists'' \<mapsto> Dict [(KStr ''x'', DataFrame table_time),
                                                    (KStr ''y'', DataFrame table_time)]), log_time)
   \<and> (\<exists>divided tables.
           transform_loop splitter example_collaborators data_time
               (get_features example_collaborators splitter (dict_keys data_time))
               ([], [(INFO, Splitting_histograms (read_key splitter) (store_key splitter))])
             = Inr (divided, log_time)
         \<and> (store_time(''split_hists'' \<mapsto> Dict [(KStr ''x'', DataFrame table_time),
                                                  (KStr ''y'', DataFrame table_time)]))
               (store_key splitter) = Some (Dict tables)
         \<and> dict_keys tables = dict_keys divided
         \<and> (\<forall>(g, v) \<in> set tables.
               \<exists>f \<in> set (get_features example_collaborators splitter (dict_keys data_time)).
               \<exists>yname split t.
                  split_of_feature splitter example_collaborators data_time f = Some (yname, split)
                \<and> g = KStr yname
                \<and> map_of divided g = Some (Records (map (\<lambda>(k, h). record_of splitter k h) split))
                \<and> v = DataFrame t
                \<and> set_index (frame_of_records (map (\<lambda>(k, h). record_of splitter k h) split))
                      (index_col splitter) = Inr t
                \<and> frame_index_name t = Some (index_col splitter)
                \<and> frame_rows t = map (\<lambda>(k, h). if index_col splitter = hist_col splitter
                                                 then (Container h, [])
                                                 else (Bin k, [Container h])) split))"
proof -
  have h1: "\<not> flatten_output splitter"
    by (simp add: splitter_def)
  have h2: "get_datastore_object store_time (read_key splitter) = Inr data_time"
    by (simp add: get_datastore_object_def store_time_def splitter_def)
  have h3: "transform splitter example_collaborators store_time
       = Inr (store_time(''split_hists'' \<mapsto> Dict [(KStr ''x'', DataFrame table_time),
                                                    (KStr ''y'', DataFrame table_time)]), log_time)"
    by (simp add: transform_def splitter_def store_time_def data_time_def hist_time_def leaf_def
        table_time_def log_time_def example_collaborators_def get_datastore_object_def
        dict_keys_def dict_remove_def transform_step_def update_divided_def record_of_def
        table_of_def frame_of_records_def set_index_def cell_at_def Let_def)
  from h1 h2 h3 nested_output_tables[OF h1 h2 h3] show ?thesis
    by (intro conjI)
qed

section \<open>Two features of one group\<close>




text \<open>
  The restriction to nested mode is needed: in flattened mode the accumulator is
  keyed by bin values, so the guard \<^verbatim>\<open>yname in divided\<close> does not see the group of an
  earlier feature, and the later feature \<^verbatim>\<open>c:x\<close> is projected and merged.
\<close>

lemma flattened_mode_projects_both_features:
  "transform_loop flat_splitter example_collaborators data_same_group [KStr ''b:x'', KStr ''c:x''] ([], [])
     = Inr ([(KInt 7, Hist leaf), (KInt 9, Hist leaf)],
            [(DEBUG, Now_splitting (KStr ''b:x'')), (DEBUG, Now_splitting (KStr ''c:x''))])"
  by (simp add: flat_splitter_def splitter_def data_same_group_def hist_c_def hist_b_def
      example_collaborators_def dict_keys_def transform_step_def update_divided_def Let_def)

section \<open>Features skipped by a guard\<close>

text \<open>
  Claim C5 says that every candidate whose number of name tokens differs from the
  dimensionality of its histogram is skipped with a logged error. The check of
  the dimensionality comes first in the loop: a histogram of one dimension under
  the name \<^verbatim>\<open>a:b\<close> has two tokens against one dimension, and it is skipped by the
  earlier guard with its debug note; no error is logged.
\<close>

theorem inconsistent_low_dimensional_counterexample:
  "int (length (str_split CHR '':'' ''a:b'')) \<noteq> n_dim example_collaborators leaf
   \<and> transform splitter example_collaborators [''hists'' \<mapsto> Dict data_flat_name]
       = Inr ([''hists'' \<mapsto> Dict data_flat_name, ''split_hists'' \<mapsto> Dict []],
              [(INFO, Splitting_histograms ''hists'' ''split_hists''),
               (DEBUG, Now_splitting (KStr ''a:b'')), (DEBUG, Nothing_to_split (KStr ''a:b''))])"
  by (simp add: transform_def splitter_def data_flat_name_def leaf_def example_collaborators_def
      get_datastore_object_def dict_keys_def transform_step_def Let_def)

text \<open>
  Claim C5, amended. A candidate whose name splits into a number of tokens
  different from the dimensionality of its histogram is skipped: the step does
  not raise and returns the accumulator as it is. It logs the error when the
  histogram has two or more dimensions, and the debug note of the earlier guard
  when it has at most one. The accumulator at the end of a pass over features
  that include it is the one of the pass without it, be it a result or the
  exception of another feature.
\<close>

theorem inconsistent_feature_is_skipped:
  assumes "map_of data (KStr name) = Some (Hist h)"
    and "int (length (str_split CHR '':'' name)) \<noteq> n_dim env h"
  shows "transform_step self env data (KStr name) (divided, lg)
           = Inr (divided, lg @ [(DEBUG, Now_splitting (KStr name)),
                                 (if n_dim env h \<le> 1 then (DEBUG, Nothing_to_split (KStr name))
                                  else (ERROR, Not_consistent (KStr name) (n_dim env h)
                                           (length (str_split CHR '':'' name))))])
       \<and> divided_of (transform_loop self env data (pre @ KStr name # post) st)
           = divided_of (transform_loop self env data (pre @ post) st)"
proof -
  have s: "transform_step self env data (KStr name) (d, l)
           = Inr (d, l @ [(DEBUG, Now_splitting (KStr name)),
                          (if n_dim env h \<le> 1 then (DEBUG, Nothing_to_split (KStr name))
                           else (ERROR, Not_consistent (KStr name) (n_dim env h)
                                           (length (str_split CHR '':'' name))))])" for d l
    using assms by (simp add: step_branches)
  then have "\<And>d l. \<exists>l1. transform_step self env data (KStr name) (d, l) = Inr (d, l1)" by blast
  from s skip_isolated[OF this] show ?thesis by blast
qed

theorem inconsistent_feature_is_skipped_witness:
  "map_of data_inconsistent (KStr ''time:x:y'') = Some (Hist hist_time)
   \<and> int (length (str_split CHR '':'' ''time:x:y'')) \<noteq> n_dim example_collaborators hist_time
   \<and> transform_step splitter example_collaborators data_inconsistent (KStr ''time:x:y'') ([], [])
           = Inr ([], [(DEBUG, Now_splitting (KStr ''time:x:y'')),
                       (ERROR, Not_consistent (KStr ''time:x:y'') 2 3)])
   \<and> divided_of (transform_loop splitter example_collaborators data_inconsistent
                    ([] @ KStr ''time:x:y'' # [KStr ''time:x'']) ([], []))
       = divided_of (transform_loop splitter example_collaborators data_inconsistent
                    ([] @ [KStr ''time:x'']) ([], []))"
proof -
  have h1: "map_of data_inconsistent (KStr ''time:x:y'') = Some (Hist hist_time)"
    by (simp add: data_inconsistent_def)
  have h2: "int (length (str_split CHR '':'' ''time:x:y'')) \<noteq> n_dim example_collaborators hist_time"
    by (simp add: example_collaborators_def hist_time_def)
  note c = inconsistent_feature_is_skipped[OF h1 h2, of splitter "[]" "[]" "[]" "[KStr ''time:x'']" "([], [])"]
  from c have p1: "transform_step splitter example_collaborators data_inconsistent (KStr ''time:x:y'') ([], [])
           = Inr ([], [(DEBUG, Now_splitting (KStr ''time:x:y'')),
                       (ERROR, Not_consistent (KStr ''time:x:y'') 2 3)])"
    by (simp add: example_collaborators_def hist_time_def)
  from c have p2: "divided_of (transform_loop splitter example_collaborators data_inconsistent
                    ([] @ KStr ''time:x:y'' # [KStr ''time:x'']) ([], []))
       = divided_of (transform_loop splitter example_collaborators data_inconsistent
                    ([] @ [KStr ''time:x'']) ([], []))"
    by blast
  from h1 h2 p1 p2 show ?thesis by (intro conjI)
qed

text \<open>
  Claim C6. A candidate whose histogram has dimensionality at most one is skipped
  at the first guard, whatever its name is and whatever the projection would do:
  the step does not raise, returns the accumulator as it is and logs the two debug
  notes; and the accumulator at the end of a pass over features that include it is
  the one of the pass without it.
\<close>

theorem low_dimensional_feature_is_skipped:
  assumes "map_of data f = Some (Hist h)" and "n_dim env h \<le> 1"
  shows "transform_step self env data f (divided, lg)
           = Inr (divided, lg @ [(DEBUG, Now_splitting f), (DEBUG, Nothing_to_split f)])
       \<and> divided_of (transform_loop self env data (pre @ f # post) st)
           = divided_of (transform_loop self env data (pre @ post) st)"
proof -
  have s: "transform_step self env data f (d, l)
           = Inr (d, l @ [(DEBUG, Now_splitting f), (DEBUG, Nothing_to_split f)])" for d l
    using assms by (simp add: step_branches)
  then have "\<And>d l. \<exists>l1. transform_step self env data f (d, l) = Inr (d, l1)" by blast
  from s skip_isolated[OF this] show ?thesis by blast
qed

theorem low_dimensional_feature_is_skipped_witness:
  "map_of data_time (KStr ''z'') = Some (Hist leaf)
   \<and> n_dim example_collaborators leaf \<le> 1
   \<and> transform_step splitter example_collaborators data_time (KStr ''z'') ([], [])
           = Inr ([], [] @ [(DEBUG, Now_splitting (KStr ''z'')), (DEBUG, Nothing_to_split (KStr ''z''))])
   \<and> divided_of (transform_loop splitter example_collaborators data_time
                    ([KStr ''time:x'', KStr ''time:y''] @ KStr ''z'' # []) ([], []))
       = divided_of (transform_loop splitter example_collaborators data_time
                    ([KStr ''time:x'', KStr ''time:y''] @ []) ([], []))"
proof -
  have h1: "map_of data_time (KStr ''z'') = Some (Hist leaf)"
    by (simp add: data_time_def)
  have h2: "n_dim example_collaborators leaf \<le> 1"
    by (simp add: example_collaborators_def leaf_def)
  from h1 h2 low_dimensional_feature_is_skipped[OF h1 h2, of splitter "[]" "[]"
      "[KStr ''time:x'', KStr ''time:y'']" "[]" "([], [])"]
  show ?thesis by (intro conjI) blast+
qed

text \<open>
  Claim C7. A candidate that reaches the projection and whose projection is empty
  is skipped with the warning: the step returns the accumulator as it is. The
  accumulator at the end of a pass over features that include it is the one of
  the pass without it. And no group without rows is ever stored: when
  \<^verbatim>\<open>transform\<close> returns, every value of the stored dictionary is a table with at
  least one row.
\<close>

theorem empty_split_is_skipped:
  assumes "map_of data (KStr name) = Some (Hist h)" and "1 < n_dim env h"
    and "int (length (str_split CHR '':'' name)) = n_dim env h"
    and "xname = hd (str_split CHR '':'' name)"
    and "yname = str_join '':'' (tl (str_split CHR '':'' name))"
    and "split_hist_along_first_dimension env h (short_keys self)
           (is_ts env h \<or> xname \<in> set (var_timestamp self)) xname yname
           (filter_empty_split_hists self) = Inr []"
  shows "(KStr yname \<notin> set (dict_keys divided) \<longrightarrow>
            transform_step self env data (KStr name) (divided, lg)
              = Inr (divided, lg @ [(DEBUG, Now_splitting (KStr name)), (WARNING, Split_is_empty yname)]))
       \<and> divided_of (transform_loop self env data (pre @ KStr name # post) st)
           = divided_of (transform_loop self env data (pre @ post) st)
       \<and> (transform self env datastore = Inr (datastore', lg') \<longrightarrow>
            (\<exists>tables. datastore' (store_key self) = Some (Dict tables)
               \<and> (\<forall>(g, v) \<in> set tables. \<exists>t. v = DataFrame t \<and> frame_rows t \<noteq> [])))"
proof -
  have s: "transform_step self env data (KStr name) (d, l)
           = Inr (d, l @ [(DEBUG, Now_splitting (KStr name)),
                          (if KStr yname \<in> set (dict_keys d) then (DEBUG, Already_divided yname)
                           else (WARNING, Split_is_empty yname))])" for d l
    using assms by (simp add: step_branches)
  then have "\<And>d l. \<exists>l1. transform_step self env data (KStr name) (d, l) = Inr (d, l1)" by blast
  from skip_isolated[OF this] s[of divided lg] transform_Inr_rows[of self env datastore datastore' lg']
  show ?thesis by auto
qed

theorem empty_split_is_skipped_witness:
  "map_of data_empty_first (KStr ''a:x'') = Some (Hist hist_empty)
   \<and> 1 < n_dim example_collaborators hist_empty
   \<and> int (length (str_split CHR '':'' ''a:x'')) = n_dim example_collaborators hist_empty
   \<and> ''a'' = hd (str_split CHR '':'' ''a:x'')
   \<and> ''x'' = str_join '':'' (tl (str_split CHR '':'' ''a:x''))
   \<and> split_hist_along_first_dimension example_collaborators hist_empty (short_keys splitter)
           (is_ts example_collaborators hist_empty \<or> ''a'' \<in> set (var_timestamp splitter)) ''a'' ''x''
           (filter_empty_split_hists splitter) = Inr []
   \<and> KStr ''x'' \<notin> set (dict_keys ([] :: example_hist dict))
   \<and> transform_step splitter example_collaborators data_empty_first (KStr ''a:x'') ([], [])
        = Inr ([], [] @ [(DEBUG, Now_splitting (KStr ''a:x'')), (WARNING, Split_is_empty ''x'')])
   \<and> divided_of (transform_loop splitter example_collaborators data_empty_first
                    ([] @ KStr ''a:x'' # [KStr ''b:x'']) ([], []))
       = divided_of (transform_loop splitter example_collaborators data_empty_first
                    ([] @ [KStr ''b:x'']) ([], []))
   \<and> transform splitter example_collaborators [''hists'' \<mapsto> Dict data_empty_first]
       = Inr ([''hists'' \<mapsto> Dict data_empty_first, ''split_hists'' \<mapsto> Dict [(KStr ''x'', DataFrame table_b)]],
              [(INFO, Splitting_histograms ''hists'' ''split_hists''),
               (DEBUG, Now_splitting (KStr ''a:x'')), (WARNING, Split_is_empty ''x''),
               (DEBUG, Now_splitting (KStr ''b:x''))])
   \<and> (\<exists>tables. [''hists'' \<mapsto> Dict data_empty_first, ''split_hists'' \<mapsto> Dict [(KStr ''x'', DataFrame table_b)]]
                   (store_key splitter) = Some (Dict tables)
               \<and> (\<forall>(g, v) \<in> set tables. \<exists>t. v = DataFrame t \<and> frame_rows t \<noteq> []))"
proof -
  have h1: "map_of data_empty_first (KStr ''a:x'') = Some (Hist hist_empty)"
    by (simp add: data_empty_first_def)
  have h2: "1 < n_dim example_collaborators hist_empty"
    by (simp add: example_collaborators_def hist_empty_def)
  have h3: "int (length (str_split CHR '':'' ''a:x'')) = n_dim example_collaborators hist_empty"
    by (simp add: example_collaborators_def hist_empty_def)
  have h4: "''a'' = hd (str_split CHR '':'' ''a:x'')"
    by simp
  have h5: "''x'' = str_join '':'' (tl (str_split CHR '':'' ''a:x''))"
    by simp
  have h6: "split_hist_along_first_dimension example_collaborators hist_empty (short_keys splitter)
           (is_ts example_collaborators hist_empty \<or> ''a'' \<in> set (var_timestamp splitter)) ''a'' ''x''
           (filter_empty_split_hists splitter) = Inr []"
    by (simp add: example_collaborators_def hist_empty_def)
  have h7: "KStr ''x'' \<notin> set (dict_keys ([] :: example_hist dict))"
    by (simp add: dict_keys_def)
  have h8: "transform splitter example_collaborators [''hists'' \<mapsto> Dict data_empty_first]
       = Inr ([''hists'' \<mapsto> Dict data_empty_first, ''split_hists'' \<mapsto> Dict [(KStr ''x'', DataFrame table_b)]],
              [(INFO, Splitting_histograms ''hists'' ''split_hists''),
               (DEBUG, Now_splitting (KStr ''a:x'')), (WARNING, Split_is_empty ''x''),
               (DEBUG, Now_splitting (KStr ''b:x''))])"
    by (simp add: transform_def splitter_def data_empty_first_def hist_empty_def hist_b_def leaf_def
      table_b_def example_collaborators_def get_datastore_object_def
      dict_keys_def dict_remove_def transform_step_def update_divided_def record_of_def
      table_of_def frame_of_records_def set_index_def cell_at_def Let_def)
  from h1 h2 h3 h4 h5 h6 h7 h8
    empty_split_is_skipped[OF h1 h2 h3 h4 h5 h6, of "[]" "[]" "[]" "[KStr ''b:x'']" "([], [])"
      "[''hists'' \<mapsto> Dict data_empty_first]"
      "[''hists'' \<mapsto> Dict data_empty_first, ''split_hists'' \<mapsto> Dict [(KStr ''x'', DataFrame table_b)]]"
      "[(INFO, Splitting_histograms ''hists'' ''split_hists''),
               (DEBUG, Now_splitting (KStr ''a:x'')), (WARNING, Split_is_empty ''x''),
               (DEBUG, Now_splitting (KStr ''b:x''))]"]
  show ?thesis by (intro conjI) blast+
qed

section \<open>The call of the projection\<close>

text \<open>
  Claim C8. For a candidate that reaches the projection (a histogram of two or
  more dimensions, as many name tokens as dimensions, its group not yet in the
  accumulator), the step is decided by the one call of the projection with the
  configured \<open>short_keys\<close>, the flag that is true exactly when the container is
  temporal or \<open>xname\<close> is in \<open>var_timestamp\<close>, the names \<open>xname\<close> and \<open>yname\<close>, and
  the configured \<open>filter_empty_split_hists\<close>: the step is the stated function of
  that result, and any collaborators with the same dimensionality and temporal
  queries whose projection agrees on this one tuple of arguments give the same
  step, whatever their projection does on other arguments.
\<close>

theorem projection_receives_configured_arguments:
  assumes "map_of data (KStr name) = Some (Hist h)" and "1 < n_dim env h"
    and "int (length (str_split CHR '':'' name)) = n_dim env h"
    and "xname = hd (str_split CHR '':'' name)"
    and "yname = str_join '':'' (tl (str_split CHR '':'' name))"
    and "KStr yname \<notin> set (dict_keys divided)"
  shows "transform_step self env data (KStr name) (divided, lg)
           = (case split_hist_along_first_dimension env h (short_keys self)
                     (is_ts env h \<or> xname \<in> set (var_timestamp self)) xname yname
                     (filter_empty_split_hists self) of
                Inl e \<Rightarrow> Inl e
              | Inr split \<Rightarrow>
                  if split = []
                  then Inr (divided, lg @ [(DEBUG, Now_splitting (KStr name)), (WARNING, Split_is_empty yname)])
                  else Inr (update_divided self divided split yname, lg @ [(DEBUG, Now_splitting (KStr name))]))
       \<and> (\<forall>env'. n_dim env' = n_dim env \<and> is_ts env' = is_ts env
               \<and> split_hist_along_first_dimension env' h (short_keys self)
                     (is_ts env h \<or> xname \<in> set (var_timestamp self)) xname yname
                     (filter_empty_split_hists self)
                 = split_hist_along_first_dimension env h (short_keys self)
                     (is_ts env h \<or> xname \<in> set (var_timestamp self)) xname yname
                     (filter_empty_split_hists self)
             \<longrightarrow> transform_step self env' data (KStr name) (divided, lg)
                 = transform_step self env data (KStr name) (divided, lg))"
proof -
  have s: "transform_step self e data (KStr name) (divided, lg)
           = (case split_hist_along_first_dimension e h (short_keys self)
                     (is_ts e h \<or> xname \<in> set (var_timestamp self)) xname yname
                     (filter_empty_split_hists self) of
                Inl e \<Rightarrow> Inl e
              | Inr split \<Rightarrow>
                  if split = []
                  then Inr (divided, lg @ [(DEBUG, Now_splitting (KStr name)), (WARNING, Split_is_empty yname)])
                  else Inr (update_divided self divided split yname, lg @ [(DEBUG, Now_splitting (KStr name))]))"
    if "n_dim e = n_dim env" for e :: "'a collaborators"
    using assms that by (simp add: step_branches split: sum.splits)
  have "transform_step self env' data (KStr name) (divided, lg)
          = transform_step self env data (KStr name) (divided, lg)"
    if "n_dim env' = n_dim env" "is_ts env' = is_ts env"
       "split_hist_along_first_dimension env' h (short_keys self)
                     (is_ts env h \<or> xname \<in> set (var_timestamp self)) xname yname
                     (filter_empty_split_hists self)
                 = split_hist_along_first_dimension env h (short_keys self)
                     (is_ts env h \<or> xname \<in> set (var_timestamp self)) xname yname
                     (filter_empty_split_hists self)" for env'
    using s[of env'] s[of env] that by simp
  with s[of env] show ?thesis by blast
qed

theorem projection_receives_configured_arguments_witness:
  "map_of data_time (KStr ''time:x'') = Some (Hist hist_time)
   \<and> 1 < n_dim example_collaborators hist_time
   \<and> int (length (str_split CHR '':'' ''time:x'')) = n_dim example_collaborators hist_time
   \<and> ''time'' = hd (str_split CHR '':'' ''time:x'')
   \<and> ''x'' = str_join '':'' (tl (str_split CHR '':'' ''time:x''))
   \<and> KStr ''x'' \<notin> set (dict_keys ([] :: example_hist dict))
   \<and> n_dim strict_collaborators = n_dim example_collaborators
   \<and> is_ts strict_collaborators = is_ts example_collaborators
   \<and> split_hist_along_first_dimension strict_collaborators hist_time (short_keys splitter)
         (is_ts example_collaborators hist_time \<or> ''time'' \<in> set (var_timestamp splitter)) ''time'' ''x''
         (filter_empty_split_hists splitter)
       = split_hist_along_first_dimension example_collaborators hist_time (short_keys splitter)
         (is_ts example_collaborators hist_time \<or> ''time'' \<in> set (var_timestamp splitter)) ''time'' ''x''
         (filter_empty_split_hists splitter)
   \<and> split_hist_along_first_dimension strict_collaborators hist_time (short_keys splitter)
         False ''time'' ''x'' (filter_empty_split_hists splitter) = Inl RuntimeError
   \<and> transform_step splitter strict_collaborators data_time (KStr ''time:x'') ([], [])
       = transform_step splitter example_collaborators data_time (KStr ''time:x'') ([], [])
   \<and> transform_step splitter example_collaborators data_time (KStr ''time:x'') ([], [])
       = Inr ([(KStr ''x'', Records [[(''date'', Bin (KTimestamp 1)), (''histogram'', Container leaf)],
                                     [(''date'', Bin (KTimestamp 2)), (''histogram'', Container leaf)],
                                     [(''date'', Bin (KTimestamp 3)), (''histogram'', Container leaf)]])],
              [(DEBUG, Now_splitting (KStr ''time:x''))])"
proof -
  have h1: "map_of data_time (KStr ''time:x'') = Some (Hist hist_time)"
    by (simp add: data_time_def)
  have h2: "1 < n_dim example_collaborators hist_time"
    by (simp add: example_collaborators_def hist_time_def)
  have h3: "int (length (str_split CHR '':'' ''time:x'')) = n_dim example_collaborators hist_time"
    by (simp add: example_collaborators_def hist_time_def)
  have h4: "''time'' = hd (str_split CHR '':'' ''time:x'')"
    by simp
  have h5: "''x'' = str_join '':'' (tl (str_split CHR '':'' ''time:x''))"
    by simp
  have h6: "KStr ''x'' \<notin> set (dict_keys ([] :: example_hist dict))"
    by (simp add: dict_keys_def)
  have e1: "n_dim strict_collaborators = n_dim example_collaborators"
    by (simp add: strict_collaborators_def)
  have e2: "is_ts strict_collaborators = is_ts example_collaborators"
    by (simp add: strict_collaborators_def)
  have e3: "split_hist_along_first_dimension strict_collaborators hist_time (short_keys splitter)
         (is_ts example_collaborators hist_time \<or> ''time'' \<in> set (var_timestamp splitter)) ''time'' ''x''
         (filter_empty_split_hists splitter)
       = split_hist_along_first_dimension example_collaborators hist_time (short_keys splitter)
         (is_ts example_collaborators hist_time \<or> ''time'' \<in> set (var_timestamp splitter)) ''time'' ''x''
         (filter_empty_split_hists splitter)"
    by (simp add: strict_collaborators_def example_collaborators_def splitter_def hist_time_def)
  have e4: "split_hist_along_first_dimension strict_collaborators hist_time (short_keys splitter)
         False ''time'' ''x'' (filter_empty_split_hists splitter) = Inl RuntimeError"
    by (simp add: strict_collaborators_def)
  note c = projection_receives_configured_arguments[OF h1 h2 h3 h4 h5 h6, of splitter "[]"]
  from c e1 e2 e3 have same:
    "transform_step splitter strict_collaborators data_time (KStr ''time:x'') ([], [])
       = transform_step splitter example_collaborators data_time (KStr ''time:x'') ([], [])"
    by blast
  from c have "transform_step splitter example_collaborators data_time (KStr ''time:x'') ([], [])
       = Inr ([(KStr ''x'', Records [[(''date'', Bin (KTimestamp 1)), (''histogram'', Container leaf)],
                                     [(''date'', Bin (KTimestamp 2)), (''histogram'', Container leaf)],
                                     [(''date'', Bin (KTimestamp 3)), (''histogram'', Container leaf)]])],
              [(DEBUG, Now_splitting (KStr ''time:x''))])"
    by (simp add: example_collaborators_def hist_time_def splitter_def update_divided_def record_of_def)
  with h1 h2 h3 h4 h5 h6 e1 e2 e3 e4 same show ?thesis
    by (intro conjI)
qed

section \<open>Running the pass again\<close>

text \<open>
  Claim C9. The pass is idempotent with respect to a fixed input mapping. When a
  run returns and the datastore it returned holds under \<open>read_key\<close> the input the
  run was given, a second run on the returned datastore returns that same
  datastore and the same log, so the value under \<open>store_key\<close> is the one of a
  single run. The input is so fixed whenever \<open>store_key\<close> differs from \<open>read_key\<close>.
  And for any two datastores holding the same input under \<open>read_key\<close> the value
  stored under \<open>store_key\<close>, or the exception raised, is the same: the pass keeps
  nothing between calls, its accumulator being local to each call. (A run that
  raises leaves the datastore as it was, so the second run is the same call.)
\<close>

theorem transform_twice_on_fixed_input:
  "(transform self env datastore = Inr (datastore', lg)
      \<and> get_datastore_object datastore' (read_key self)
          = get_datastore_object datastore (read_key self)
    \<longrightarrow> transform self env datastore' = Inr (datastore', lg))
   \<and> (transform self env datastore = Inr (datastore', lg) \<and> read_key self \<noteq> store_key self
    \<longrightarrow> get_datastore_object datastore' (read_key self)
          = get_datastore_object datastore (read_key self))
   \<and> (get_datastore_object other (read_key self) = get_datastore_object datastore (read_key self)
    \<longrightarrow> entry_after (transform self env other) (store_key self)
          = entry_after (transform self env datastore) (store_key self))"
proof -
  have again: "transform self env datastore' = Inr (datastore', lg)"
    if run: "transform self env datastore = Inr (datastore', lg)"
      and fixed: "get_datastore_object datastore' (read_key self)
                  = get_datastore_object datastore (read_key self)"
  proof -
    from transform_Inr_D[OF run] obtain data divided tables where
      g: "get_datastore_object datastore (read_key self) = Inr data" and
      l: "transform_loop self env data (get_features env self (dict_keys data))
               ([], [(INFO, Splitting_histograms (read_key self) (store_key self))]) = Inr (divided, lg)"
      and t: "to_dataframes self (dict_keys divided) divided = Inr tables"
      and d: "datastore' = datastore(store_key self \<mapsto> Dict tables)" by blast
    from g fixed have "get_datastore_object datastore' (read_key self) = Inr data" by simp
    with l t have "transform self env datastore' = Inr (datastore'(store_key self \<mapsto> Dict tables), lg)"
      by (simp add: transform_def)
    moreover have "datastore'(store_key self \<mapsto> Dict tables) = datastore'"
      by (simp add: d)
    ultimately show ?thesis by simp
  qed
  have kept: "get_datastore_object datastore' (read_key self)
              = get_datastore_object datastore (read_key self)"
    if run: "transform self env datastore = Inr (datastore', lg)"
      and keys: "read_key self \<noteq> store_key self"
  proof -
    from transform_Inr_D[OF run] obtain tables where
      "datastore' = datastore(store_key self \<mapsto> Dict tables)" by blast
    with keys show ?thesis by (simp add: get_datastore_object_def)
  qed
  from again kept transform_depends_on_input[of other self datastore env] show ?thesis
    by blast
qed

theorem transform_twice_on_fixed_input_witness:
  "transform splitter example_collaborators store_time
       = Inr (store_time(''split_hists'' \<mapsto> Dict [(KStr ''x'', DataFrame table_time),
                                                    (KStr ''y'', DataFrame table_time)]), log_time)
   \<and> read_key splitter \<noteq> store_key splitter
   \<and> get_datastore_object
         (store_time(''split_hists'' \<mapsto> Dict [(KStr ''x'', DataFrame table_time),
                                              (KStr ''y'', DataFrame table_time)]))
         (read_key splitter)
       = get_datastore_object store_time (read_key splitter)
   \<and> transform splitter example_collaborators
         (store_time(''split_hists'' \<mapsto> Dict [(KStr ''x'', DataFrame table_time),
                                              (KStr ''y'', DataFrame table_time)]))
       = Inr (store_time(''split_hists'' \<mapsto> Dict [(KStr ''x'', DataFrame table_time),
                                                    (KStr ''y'', DataFrame table_time)]), log_time)
   \<and> get_datastore_object (store_time(''other'' \<mapsto> Other_object)) (read_key splitter)
       = get_datastore_object store_time (read_key splitter)
   \<and> entry_after (transform splitter example_collaborators (store_time(''other'' \<mapsto> Other_object)))
         (store_key splitter)
       = entry_after (transform splitter example_collaborators store_time) (store_key splitter)"
proof -
  have h1: "transform splitter example_collaborators store_time
       = Inr (store_time(''split_hists'' \<mapsto> Dict [(KStr ''x'', DataFrame table_time),
                                                    (KStr ''y'', DataFrame table_time)]), log_time)"
    by (simp add: transform_def splitter_def store_time_def data_time_def hist_time_def leaf_def
        table_time_def log_time_def example_collaborators_def get_datastore_object_def
        dict_keys_def dict_remove_def transform_step_def update_divided_def record_of_def
        table_of_def frame_of_records_def set_index_def cell_at_def Let_def)
  have h2: "read_key splitter \<noteq> store_key splitter"
    by (simp add: splitter_def)
  have h3: "get_datastore_object (store_time(''other'' \<mapsto> Other_object)) (read_key splitter)
       = get_datastore_object store_time (read_key splitter)"
    by (simp add: get_datastore_object_def splitter_def store_time_def)
  note c = transform_twice_on_fixed_input[of splitter example_collaborators store_time
      "store_time(''split_hists'' \<mapsto> Dict [(KStr ''x'', DataFrame table_time),
                                              (KStr ''y'', DataFrame table_time)])" log_time
      "store_time(''other'' \<mapsto> Other_object)"]
  from c h1 h2 have p1: "get_datastore_object
         (store_time(''split_hists'' \<mapsto> Dict [(KStr ''x'', DataFrame table_time),
                                              (KStr ''y'', DataFrame table_time)]))
         (read_key splitter)
       = get_datastore_object store_time (read_key splitter)"
    by blast
  from c h1 p1 have p2: "transform splitter example_collaborators
         (store_time(''split_hists'' \<mapsto> Dict [(KStr ''x'', DataFrame table_time),
                                              (KStr ''y'', DataFrame table_time)]))
       = Inr (store_time(''split_hists'' \<mapsto> Dict [(KStr ''x'', DataFrame table_time),
                                                    (KStr ''y'', DataFrame table_time)]), log_time)"
    by blast
  from c h3 have p3: "entry_after (transform splitter example_collaborators (store_time(''other'' \<mapsto> Other_object)))
         (store_key splitter)
       = entry_after (transform splitter example_collaborators store_time) (store_key splitter)"
    by blast
  from h1 h2 p1 p2 h3 p3 show ?thesis
    by (intro conjI)
qed

section \<open>What the pass writes\<close>

text \<open>
  Claim C10. When \<^verbatim>\<open>transform\<close> returns, the datastore it returns is the datastore
  it was given with the entry \<open>store_key\<close> written and nothing else: every other
  key, the input under \<open>read_key\<close> among them, holds what it held, histograms
  included, since the collaborators only read them. The entry is written also when
  no candidate is accumulated: when the loop ends with the empty accumulator, and
  in particular when no feature is resolved, the call returns and \<open>store_key\<close>
  maps to the empty dictionary.
\<close>

theorem transform_writes_only_store_key:
  "(transform self env datastore = Inr (datastore', lg) \<longrightarrow>
      (\<exists>tables. datastore' = datastore(store_key self \<mapsto> Dict tables))
    \<and> (\<forall>k. k \<noteq> store_key self \<longrightarrow> datastore' k = datastore k))
   \<and> (get_datastore_object datastore (read_key self) = Inr data
      \<and> transform_loop self env data (get_features env self (dict_keys data))
            ([], [(INFO, Splitting_histograms (read_key self) (store_key self))]) = Inr ([], lg0)
      \<longrightarrow> transform self env datastore = Inr (datastore(store_key self \<mapsto> Dict []), lg0))"
proof -
  have a: "(\<exists>tables. datastore' = datastore(store_key self \<mapsto> Dict tables))
         \<and> (\<forall>k. k \<noteq> store_key self \<longrightarrow> datastore' k = datastore k)"
    if "transform self env datastore = Inr (datastore', lg)"
    using transform_Inr_D[OF that] by auto
  have b: "transform self env datastore = Inr (datastore(store_key self \<mapsto> Dict []), lg0)"
    if "get_datastore_object datastore (read_key self) = Inr data"
       "transform_loop self env data (get_features env self (dict_keys data))
            ([], [(INFO, Splitting_histograms (read_key self) (store_key self))]) = Inr ([], lg0)"
    using that by (simp add: transform_def dict_keys_def)
  from a b show ?thesis by blast
qed

theorem transform_writes_only_store_key_witness:
  "transform splitter example_collaborators store_time
       = Inr (store_time(''split_hists'' \<mapsto> Dict [(KStr ''x'', DataFrame table_time),
                                                    (KStr ''y'', DataFrame table_time)]), log_time)
   \<and> (\<exists>tables. store_time(''split_hists'' \<mapsto> Dict [(KStr ''x'', DataFrame table_time),
                                                    (KStr ''y'', DataFrame table_time)])
               = store_time(store_key splitter \<mapsto> Dict tables))
   \<and> ''hists'' \<noteq> store_key splitter
   \<and> (store_time(''split_hists'' \<mapsto> Dict [(KStr ''x'', DataFrame table_time),
                                            (KStr ''y'', DataFrame table_time)])) ''hists''
       = store_time ''hists''
   \<and> get_datastore_object [''hists'' \<mapsto> Dict data_flat_name] (read_key splitter) = Inr data_flat_name
   \<and> transform_loop splitter example_collaborators data_flat_name
         (get_features example_collaborators splitter (dict_keys data_flat_name))
         ([], [(INFO, Splitting_histograms (read_key splitter) (store_key splitter))])
       = Inr ([], [(INFO, Splitting_histograms ''hists'' ''split_hists''),
                   (DEBUG, Now_splitting (KStr ''a:b'')), (DEBUG, Nothing_to_split (KStr ''a:b''))])
   \<and> transform splitter example_collaborators [''hists'' \<mapsto> Dict data_flat_name]
       = Inr ([''hists'' \<mapsto> Dict data_flat_name](store_key splitter \<mapsto> Dict []),
              [(INFO, Splitting_histograms ''hists'' ''split_hists''),
               (DEBUG, Now_splitting (KStr ''a:b'')), (DEBUG, Nothing_to_split (KStr ''a:b''))])"
proof -
  have h1: "transform splitter example_collaborators store_time
       = Inr (store_time(''split_hists'' \<mapsto> Dict [(KStr ''x'', DataFrame table_time),
                                                    (KStr ''y'', DataFrame table_time)]), log_time)"
    by (simp add: transform_def splitter_def store_time_def data_time_def hist_time_def leaf_def
        table_time_def log_time_def example_collaborators_def get_datastore_object_def
        dict_keys_def dict_remove_def transform_step_def update_divided_def record_of_def
        table_of_def frame_of_records_def set_index_def cell_at_def Let_def)
  have h2: "''hists'' \<noteq> store_key splitter"
    by (simp add: splitter_def)
  have h3: "get_datastore_object [''hists'' \<mapsto> Dict data_flat_name] (read_key splitter) = Inr data_flat_name"
    by (simp add: get_datastore_object_def splitter_def)
  have h4: "transform_loop splitter example_collaborators data_flat_name
         (get_features example_collaborators splitter (dict_keys data_flat_name))
         ([], [(INFO, Splitting_histograms (read_key splitter) (store_key splitter))])
       = Inr ([], [(INFO, Splitting_histograms ''hists'' ''split_hists''),
                   (DEBUG, Now_splitting (KStr ''a:b'')), (DEBUG, Nothing_to_split (KStr ''a:b''))])"
    by (simp add: splitter_def data_flat_name_def leaf_def example_collaborators_def dict_keys_def
        transform_step_def Let_def)
  note a = transform_writes_only_store_key[of splitter example_collaborators store_time
      "store_time(''split_hists'' \<mapsto> Dict [(KStr ''x'', DataFrame table_time),
                                              (KStr ''y'', DataFrame table_time)])" log_time]
  note b = transform_writes_only_store_key[of splitter example_collaborators
      "[''hists'' \<mapsto> Dict data_flat_name]" _ _ data_flat_name
      "[(INFO, Splitting_histograms ''hists'' ''split_hists''),
        (DEBUG, Now_splitting (KStr ''a:b'')), (DEBUG, Nothing_to_split (KStr ''a:b''))]"]
  from a h1 have p1: "\<exists>tables. store_time(''split_hists'' \<mapsto> Dict [(KStr ''x'', DataFrame table_time),
                                                    (KStr ''y'', DataFrame table_time)])
               = store_time(store_key splitter \<mapsto> Dict tables)"
    by blast
  from a h1 h2 have p2: "(store_time(''split_hists'' \<mapsto> Dict [(KStr ''x'', DataFrame table_time),
                                            (KStr ''y'', DataFrame table_time)])) ''hists''
       = store_time ''hists''"
    by blast
  from b h3 h4 have p3: "transform splitter example_collaborators [''hists'' \<mapsto> Dict data_flat_name]
       = Inr ([''hists'' \<mapsto> Dict data_flat_name](store_key splitter \<mapsto> Dict []),
              [(INFO, Splitting_histograms ''hists'' ''split_hists''),
               (DEBUG, Now_splitting (KStr ''a:b'')), (DEBUG, Nothing_to_split (KStr ''a:b''))])"
    by blast
  from h1 p1 h2 p2 h3 h4 p3 show ?thesis
    by (intro conjI)
qed

end
